theory Spec2Isabelle
  imports Main
begin

section \<open>Extension registration of rstfmt (\<^verbatim>\<open>rstfmt/rst_extras.py\<close>)\<close>

text \<open>
  The module installs replacement directives and roles into the registries of the host
  parser. The host (docutils, Sphinx and the optional plug-ins) is not part of the
  module: whatever the module reads from it is a field of \<open>host_env\<close>, and the two host
  registries the module writes to are the state \<open>registry\<close>, passed explicitly.
  Python strings are modelled as \<open>string\<close>; every name the module itself spells is ASCII.
\<close>

subsection \<open>Directive classes\<close>

text \<open>
  The option schema of a directive class. \<open>DummyOptionSpec\<close> is the schema of
  \<^verbatim>\<open>sphinx.ext.autodoc.directive\<close>; a declared schema lists the option names the
  class knows (\<open>None\<close> in docutils' base class is the empty list).
\<close>

datatype option_spec = DummyOptionSpec | Declared_spec "string list"

text \<open>
  What \<^verbatim>\<open>run\<close> of a class is: the method the host class came with (tagged with the
  class that defines it), or the lambda of \<^verbatim>\<open>_add_directive\<close>.
\<close>

datatype run_method = Run_original string | Run_passthrough

text \<open>
  The class attributes the host parser and the formatter read. \<open>raw\<close> is \<open>None\<close> on a
  class that does not define the attribute.
\<close>

record directive_cls =
  cls_name :: string
  required_arguments :: nat
  optional_arguments :: nat
  final_argument_whitespace :: bool
  has_content :: bool
  option_spec :: option_spec
  run :: run_method
  raw :: "bool option"

text \<open>The values that occur in a class namespace.\<close>

datatype pyval = V_spec option_spec | V_run run_method | V_bool bool | V_int nat

text \<open>
  \<^verbatim>\<open>type(name, (base,), namespace)\<close>: a class with one base. An attribute is read
  from the namespace when it is there and inherited from the base otherwise.
\<close>

definition type_new :: "string \<Rightarrow> directive_cls \<Rightarrow> (string \<rightharpoonup> pyval) \<Rightarrow> directive_cls" where
  "type_new nm base namespace =
     \<lparr> cls_name = nm,
       required_arguments =
         (case namespace ''required_arguments'' of Some (V_int n) \<Rightarrow> n | _ \<Rightarrow> required_arguments base),
       optional_arguments =
         (case namespace ''optional_arguments'' of Some (V_int n) \<Rightarrow> n | _ \<Rightarrow> optional_arguments base),
       final_argument_whitespace =
         (case namespace ''final_argument_whitespace'' of Some (V_bool b) \<Rightarrow> b
          | _ \<Rightarrow> final_argument_whitespace base),
       has_content =
         (case namespace ''has_content'' of Some (V_bool b) \<Rightarrow> b | _ \<Rightarrow> has_content base),
       option_spec =
         (case namespace ''option_spec'' of Some (V_spec s) \<Rightarrow> s | _ \<Rightarrow> option_spec base),
       run = (case namespace ''run'' of Some (V_run r) \<Rightarrow> r | _ \<Rightarrow> run base),
       raw = (case namespace ''raw'' of Some (V_bool b) \<Rightarrow> Some b | _ \<Rightarrow> raw base) \<rparr>"

text \<open>\<^verbatim>\<open>docutils.parsers.rst.Directive\<close>, the base class of all directives.\<close>

definition Directive :: directive_cls where
  "Directive =
     \<lparr> cls_name = ''Directive'', required_arguments = 0, optional_arguments = 0,
       final_argument_whitespace = False, has_content = False,
       option_spec = Declared_spec [], run = Run_original ''Directive'', raw = None \<rparr>"

subsection \<open>Options, as the host parser reads them\<close>

datatype error = ImportError string | AttributeError string | KeyError string

text \<open>
  The value of an option in a directive instance: the text as written (none for an
  option without a value), or what the converter that a class declares for the option
  made of it, which stays uninterpreted.
\<close>

datatype optval = Opaque_text "string option" | Converted string "string option"

datatype converter = Conv_identity | Conv_declared string

text \<open>
  Modelled from the spec: the option relaxer (the class \<^verbatim>\<open>DummyOptionSpec\<close> of Sphinx,
  which is not part of the module) is a schema that accepts an option with any name and
  treats its value as opaque text. A declared schema knows the names it lists and no
  other.
\<close>

definition option_spec_getitem :: "option_spec \<Rightarrow> string \<Rightarrow> error + converter" where
  "option_spec_getitem spec key =
     (case spec of
        DummyOptionSpec \<Rightarrow> Inr Conv_identity
      | Declared_spec names \<Rightarrow>
          if key \<in> set names then Inr (Conv_declared key) else Inl (KeyError key))"

text \<open>
  Modelled from the spec: the converter of the relaxed schema hands the value on as it
  was written; what a declared converter returns is not looked into.
\<close>

definition apply_converter :: "converter \<Rightarrow> string option \<Rightarrow> optval" where
  "apply_converter conv v =
     (case conv of Conv_identity \<Rightarrow> Opaque_text v | Conv_declared key \<Rightarrow> Converted key v)"

text \<open>
  Modelled from the spec: the host parser looks the name of each option it reads up in
  the schema of the directive class, and stores what the converter returns.
\<close>

definition parse_option :: "option_spec \<Rightarrow> string \<times> string option \<Rightarrow> error + string \<times> optval" where
  "parse_option spec opt =
     (case opt of (key, v) \<Rightarrow>
        (case option_spec_getitem spec key of
           Inl e \<Rightarrow> Inl e
         | Inr conv \<Rightarrow> Inr (key, apply_converter conv v)))"

subsection \<open>Nodes\<close>

text \<open>
  A directive instance is what the host parser builds from one invocation before it
  calls \<^verbatim>\<open>run\<close>: the class, the name used, and the parsed arguments, options, content
  and position.
\<close>

record invocation =
  inv_cls :: directive_cls
  inv_name :: string
  arguments :: "string list"
  options :: "(string \<times> optval) list"
  content :: "string list"
  lineno :: nat
  content_offset :: nat
  block_text :: string

record reference_role_self =
  rr_rawtext :: string
  rr_name :: string
  rr_has_explicit_title :: bool
  rr_target :: string
  rr_title :: string

datatype node =
    directive invocation
  | role string string string
  | ref_role string string bool string string

text \<open>
  The outcome of calling \<^verbatim>\<open>run\<close> on an instance: the list it returns, or the
  semantic expansion of the host class (with whatever that does), tagged with the class
  whose method ran.
\<close>

datatype run_outcome = Returned "node list" | Original_expansion string

definition call_run :: "invocation \<Rightarrow> run_outcome" where
  "call_run self =
     (case run (inv_cls self) of
        Run_passthrough \<Rightarrow> Returned [directive self]
      | Run_original owner \<Rightarrow> Original_expansion owner)"

definition ReferenceRole_run :: "reference_role_self \<Rightarrow> node list \<times> string list" where
  "ReferenceRole_run self =
     ([ref_role (rr_rawtext self) (rr_name self) (rr_has_explicit_title self)
         (rr_target self) (rr_title self)], [])"

subsection \<open>Roles\<close>

definition role_aliases :: "(string \<times> string) list" where
  "role_aliases =
     [(''pep'', ''PEP''),
      (''pep-reference'', ''PEP''),
      (''rfc'', ''RFC''),
      (''rfc-reference'', ''RFC''),
      (''subscript'', ''sub''),
      (''superscript'', ''sup'')]"

text \<open>
  \<^verbatim>\<open>str.lower\<close> on the letters A to Z; every other character is kept. The keys of
  the alias table are lowercase ASCII, and no character outside ASCII has a lowercase
  form that occurs in them, so the lookup in the table gives what it gives in Python.
\<close>

definition lower_char :: "char \<Rightarrow> char" where
  "lower_char c =
     (case map_of (zip ''ABCDEFGHIJKLMNOPQRSTUVWXYZ'' ''abcdefghijklmnopqrstuvwxyz'') c of
        Some l \<Rightarrow> l
      | None \<Rightarrow> c)"

definition lower :: "string \<Rightarrow> string" where
  "lower s = map lower_char s"

text \<open>
  \<^verbatim>\<open>docutils.utils.unescape(text, restore_backslashes=True)\<close>: every NUL, which the
  host parser puts in the place of an escaping backslash, becomes a backslash again.
\<close>

definition unescape :: "string \<Rightarrow> string" where
  "unescape text = map (\<lambda>c. if c = CHR 0x00 then CHR 0x5C else c) text"

definition generic_role :: "string \<Rightarrow> string \<Rightarrow> string \<Rightarrow> node list \<times> string list" where
  "generic_role r rawtext text =
     (let r' = (case map_of role_aliases (lower r) of Some a \<Rightarrow> a | None \<Rightarrow> r);
          text' = unescape text
      in ([role rawtext text' r'], []))"

text \<open>
  The callables found in a role registry: \<^verbatim>\<open>generic_role\<close>, an instance of the
  module's \<^verbatim>\<open>ReferenceRole\<close>, or a role of the host, of which the module only asks
  whether it is an instance of \<^verbatim>\<open>sphinx.util.docutils.ReferenceRole\<close>.
\<close>

datatype role_callable = Generic_role | ReferenceRole_inst | Host_role string bool

fun isinstance_ReferenceRole :: "role_callable \<Rightarrow> bool" where
  "isinstance_ReferenceRole Generic_role = False"
| "isinstance_ReferenceRole ReferenceRole_inst = True"
| "isinstance_ReferenceRole (Host_role _ b) = b"

subsection \<open>The host registries\<close>

text \<open>
  The two tables of docutils that the module writes to, each a dictionary from names to
  what is registered; a registration stores its second argument under the name it is
  given and replaces what was there.
\<close>

record registry =
  role_registry :: "string \<rightharpoonup> role_callable"
  directives_reg :: "string \<rightharpoonup> directive_cls"

definition register_canonical_role :: "string \<Rightarrow> role_callable \<Rightarrow> registry \<Rightarrow> registry" where
  "register_canonical_role nm role_fn st = st\<lparr>role_registry := (role_registry st)(nm \<mapsto> role_fn)\<rparr>"

definition register_directive :: "string \<Rightarrow> directive_cls \<Rightarrow> registry \<Rightarrow> registry" where
  "register_directive nm cls st = st\<lparr>directives_reg := (directives_reg st)(nm \<mapsto> cls)\<rparr>"

subsection \<open>The interceptor\<close>

text \<open>
  The keyword arguments of \<^verbatim>\<open>_add_directive\<close> are options: \<open>None\<close> for an argument
  the caller leaves out, so that the defaults (\<^verbatim>\<open>attrs=None\<close>, \<^verbatim>\<open>raw=True\<close>) are the
  function's own.
\<close>

definition interceptor_cls ::
  "directive_cls \<Rightarrow> (string \<rightharpoonup> pyval) option \<Rightarrow> bool option \<Rightarrow> directive_cls" where
  "interceptor_cls cls attrs raw_arg =
     (let namespace =
            [''option_spec'' \<mapsto> V_spec DummyOptionSpec,
             ''run'' \<mapsto> V_run Run_passthrough,
             ''raw'' \<mapsto> V_bool (case raw_arg of None \<Rightarrow> True | Some b \<Rightarrow> b)]
            ++ (case attrs of None \<Rightarrow> Map.empty | Some a \<Rightarrow> a)
      in type_new (''rstfmt_'' @ cls_name cls) cls namespace)"

definition add_directive ::
  "string \<Rightarrow> directive_cls \<Rightarrow> (string \<rightharpoonup> pyval) option \<Rightarrow> bool option \<Rightarrow> registry \<Rightarrow> registry" where
  "add_directive nm cls attrs raw_arg st =
     register_directive nm (interceptor_cls cls attrs raw_arg) st"

subsection \<open>The host environment\<close>

text \<open>
  A class together with the classes \<^verbatim>\<open>__subclasses__()\<close> returns for it, each with
  its own subclasses. A class with two bases in the hierarchy occurs under each of them.
\<close>

datatype 'a hier = Hier 'a "'a hier list"

fun hier_cls :: "'a hier \<Rightarrow> 'a" where
  "hier_cls (Hier c _) = c"

fun subclasses :: "'a hier \<Rightarrow> 'a list" where
  "subclasses (Hier c subs) = concat (map (\<lambda>s. hier_cls s # subclasses s) subs)"

record domain =
  dom_name :: string
  dom_roles :: "(string \<times> role_callable) list"
  dom_directives :: "(string \<times> directive_cls) list"

record documenter =
  doc_cls_name :: string
  objtype :: string

text \<open>
  A module that can be imported: the directive classes and the submodules found as its
  attributes.
\<close>

datatype py_module =
  Py_module (mod_classes: "(string \<times> directive_cls) list")
            (mod_submodules: "(string \<times> py_module) list")

record host_env =
  Domain_hier :: "domain hier"
  PythonDomain_directives :: "(string \<times> directive_cls) list"
  directive_registry :: "(string \<times> string \<times> string) list"
  import_module :: "string \<Rightarrow> py_module option"
  Glossary :: directive_cls
  LiteralInclude :: directive_cls
  TocTree :: directive_cls
  VersionChange :: directive_cls
  Only :: directive_cls
  Highlight :: directive_cls
  Todo :: directive_cls
  Documenter_hier :: "documenter hier"
  AutodocDirective :: directive_cls

definition getattr_cls :: "py_module \<Rightarrow> string \<Rightarrow> error + directive_cls" where
  "getattr_cls m a =
     (case map_of (mod_classes m) a of None \<Rightarrow> Inl (AttributeError a) | Some c \<Rightarrow> Inr c)"

definition getattr_module :: "py_module \<Rightarrow> string \<Rightarrow> error + py_module" where
  "getattr_module m a =
     (case map_of (mod_submodules m) a of None \<Rightarrow> Inl (AttributeError a) | Some c \<Rightarrow> Inr c)"

definition bind_err :: "error + 'a \<Rightarrow> ('a \<Rightarrow> error + 'b) \<Rightarrow> error + 'b" where
  "bind_err x f = (case x of Inl e \<Rightarrow> Inl e | Inr v \<Rightarrow> f v)"

subsection \<open>Optional directives\<close>

definition add_optional_directive ::
  "string \<Rightarrow> string \<Rightarrow> string \<Rightarrow> host_env \<Rightarrow> registry \<Rightarrow> registry" where
  "add_optional_directive directive_name directive_cls importlib_name env st =
     (case import_module env importlib_name of
        None \<Rightarrow> st
      | Some module \<Rightarrow>
          (case map_of (mod_classes module) directive_cls of
             None \<Rightarrow> st
           | Some c \<Rightarrow> add_directive directive_name c None None st))"

subsection \<open>\<^verbatim>\<open>register\<close>, block by block\<close>

text \<open>Lines 110 to 121: the standard roles and \<^verbatim>\<open>download\<close>.\<close>

definition register_roles :: "registry \<Rightarrow> registry" where
  "register_roles st =
     register_canonical_role ''download'' ReferenceRole_inst
       (fold (\<lambda>r. register_canonical_role r Generic_role)
          [''math'', ''pep-reference'', ''rfc-reference'', ''subscript'', ''superscript''] st)"

text \<open>Lines 122 to 129: the body of the loop over the domains, then the loop.\<close>

definition register_domain_role :: "string \<Rightarrow> string \<times> role_callable \<Rightarrow> registry \<Rightarrow> registry" where
  "register_domain_role dname item st =
     (case item of (nm, role_callable) \<Rightarrow>
        if isinstance_ReferenceRole role_callable
        then register_canonical_role (dname @ '':'' @ nm) ReferenceRole_inst
               (register_canonical_role nm ReferenceRole_inst st)
        else st)"

definition register_domain_directive ::
  "string \<Rightarrow> string \<times> directive_cls \<Rightarrow> registry \<Rightarrow> registry" where
  "register_domain_directive dname item st =
     (case item of (nm, directive_cls) \<Rightarrow>
        add_directive (dname @ '':'' @ nm) directive_cls None None st)"

definition register_domain :: "domain \<Rightarrow> registry \<Rightarrow> registry" where
  "register_domain d st =
     fold (register_domain_directive (dom_name d)) (dom_directives d)
       (fold (register_domain_role (dom_name d)) (dom_roles d) st)"

definition register_domains :: "host_env \<Rightarrow> registry \<Rightarrow> registry" where
  "register_domains env st = fold register_domain (subclasses (Domain_hier env)) st"

text \<open>Lines 132 and 133: the directives of the \<^verbatim>\<open>py\<close> domain once more, unqualified.\<close>

definition register_default_domain :: "host_env \<Rightarrow> registry \<Rightarrow> registry" where
  "register_default_domain env st =
     fold (\<lambda>(nm, directive_cls). add_directive nm directive_cls None None)
       (PythonDomain_directives env) st"

definition non_raw_directives :: "string set" where
  "non_raw_directives =
     {''admonition'', ''attention'', ''caution'', ''danger'', ''error'', ''hint'',
      ''important'', ''note'', ''tip'', ''warning'', ''list-table'', ''tabs'', ''tab'',
      ''group-tab'', ''code-tab''}"

text \<open>Line 162: the \<^verbatim>\<open>role\<close> directive.\<close>

definition register_role_directive :: "registry \<Rightarrow> registry" where
  "register_role_directive st =
     add_directive ''role'' Directive (Some [''required_arguments'' \<mapsto> V_int 1]) None st"

definition exclude_directives :: "string set" where
  "exclude_directives = {''role''}"

text \<open>
  Lines 165 to 170: the loop over the directives of the base grammar. An import that
  fails and a class that is not in its module raise, and nothing catches them.
\<close>

fun register_base_grammar ::
  "host_env \<Rightarrow> (string \<times> string \<times> string) list \<Rightarrow> registry \<Rightarrow> error + registry" where
  "register_base_grammar env [] st = Inr st"
| "register_base_grammar env ((directive_name, module, cls_nm) # rest) st =
     (if directive_name \<in> exclude_directives then register_base_grammar env rest st
      else
        (case import_module env (''docutils.parsers.rst.directives.'' @ module) of
           None \<Rightarrow> Inl (ImportError (''docutils.parsers.rst.directives.'' @ module))
         | Some m \<Rightarrow>
             bind_err (getattr_cls m cls_nm)
               (\<lambda>cls. register_base_grammar env rest
                  (add_directive directive_name cls None
                     (Some (directive_name \<notin> non_raw_directives)) st))))"

text \<open>Lines 172 to 178: directives of Sphinx itself.\<close>

definition register_sphinx :: "host_env \<Rightarrow> registry \<Rightarrow> registry" where
  "register_sphinx env st =
     add_directive ''todo'' (Todo env) None None
       (add_directive ''highlight'' (Highlight env) None None
         (add_directive ''only'' (Only env) None None
           (add_directive ''versionadded'' (VersionChange env) None None
             (add_directive ''toctree'' (TocTree env) None None
               (add_directive ''literalinclude'' (LiteralInclude env) None None
                 (add_directive ''glossary'' (Glossary env) None (Some False) st))))))"

text \<open>
  Lines 180 to 182. The loop runs over a \<^verbatim>\<open>set\<close>, in no fixed order; each round
  registers, under a name that its class decides, a class that is the same in every
  round, so the order the model picks is not seen in the result.
\<close>

definition register_autodoc :: "host_env \<Rightarrow> registry \<Rightarrow> registry" where
  "register_autodoc env st =
     fold (\<lambda>d s. if objtype d \<noteq> ''object''
                  then add_directive (''auto'' @ objtype d) (AutodocDirective env) None (Some False) s
                  else s)
       (remdups (subclasses (Documenter_hier env))) st"

text \<open>Lines 187 to 195.\<close>

definition register_sphinx_tabs :: "host_env \<Rightarrow> registry \<Rightarrow> error + registry" where
  "register_sphinx_tabs env st =
     (case import_module env ''sphinx_tabs.tabs'' of
        None \<Rightarrow> Inr st
      | Some m \<Rightarrow>
          bind_err (getattr_cls m ''TabsDirective'') (\<lambda>c1.
          let st1 = add_directive ''tabs'' c1 None (Some False) st in
          bind_err (getattr_cls m ''TabDirective'') (\<lambda>c2.
          let st2 = add_directive ''tab'' c2 None (Some False) st1 in
          bind_err (getattr_cls m ''GroupTabDirective'') (\<lambda>c3.
          let st3 = add_directive ''group-tab'' c3 None (Some False) st2 in
          bind_err (getattr_cls m ''CodeTabDirective'') (\<lambda>c4.
          Inr (add_directive ''code-tab'' c4 None None st3))))))"

text \<open>Lines 197 to 202.\<close>

definition register_sphinx_click :: "host_env \<Rightarrow> registry \<Rightarrow> error + registry" where
  "register_sphinx_click env st =
     (case import_module env ''sphinx_click'' of
        None \<Rightarrow> Inr st
      | Some m \<Rightarrow>
          bind_err (getattr_module m ''ext'') (\<lambda>ext.
          bind_err (getattr_cls ext ''ClickDirective'') (\<lambda>c.
          Inr (add_directive ''click'' c None None st))))"

text \<open>Lines 204 to 209.\<close>

definition register_sphinxarg :: "host_env \<Rightarrow> registry \<Rightarrow> error + registry" where
  "register_sphinxarg env st =
     (case import_module env ''sphinxarg.ext'' of
        None \<Rightarrow> Inr st
      | Some m \<Rightarrow>
          bind_err (getattr_cls m ''ArgParseDirective'') (\<lambda>c.
          Inr (add_directive ''argparse'' c None None st)))"

text \<open>
  Lines 211 to 237. A \<^verbatim>\<open>from ... import\<close> raises \<^verbatim>\<open>ImportError\<close> also when the
  module has no such name, so both ways of failing are caught.
\<close>

definition esp_roles :: "string list" where
  "esp_roles =
     [''project'', ''project_file'', ''project_raw'',
      ''idf'', ''idf_file'', ''idf_raw'',
      ''component'', ''component_file'', ''component_raw'',
      ''example'', ''example_file'', ''example_raw'',
      ''link_to_translation'']"

definition from_import :: "host_env \<Rightarrow> string \<Rightarrow> string \<Rightarrow> directive_cls option" where
  "from_import env module_name nm =
     (case import_module env module_name of
        None \<Rightarrow> None
      | Some m \<Rightarrow> map_of (mod_classes m) nm)"

definition register_esp_docs :: "host_env \<Rightarrow> registry \<Rightarrow> registry" where
  "register_esp_docs env st =
     (case from_import env ''esp_docs.esp_extensions.include_build_file'' ''IncludeBuildFile'' of
        None \<Rightarrow> st
      | Some IncludeBuildFile \<Rightarrow>
          (case from_import env ''esp_docs.generic_extensions.list_filter'' ''ListFilter'' of
             None \<Rightarrow> st
           | Some ListFilter \<Rightarrow>
               add_directive ''list'' ListFilter None None
                 (add_directive ''include-build-file'' IncludeBuildFile None None
                   (fold (\<lambda>r. register_canonical_role r ReferenceRole_inst) esp_roles st))))"

text \<open>Lines 239 to 250.\<close>

definition optional_directives :: "(string \<times> string \<times> string) list" where
  "optional_directives =
     [(''blockdiag'', ''Blockdiag'', ''sphinxcontrib.blockdiag''),
      (''packetdiag'', ''Packetdiag'', ''sphinxcontrib.packetdiag''),
      (''rackdiag'', ''Rackdiag'', ''sphinxcontrib.rackdiag''),
      (''seqdiag'', ''Seqdiag'', ''sphinxcontrib.seqdiag''),
      (''wavedrom'', ''WavedromDirective'', ''sphinxcontrib.wavedrom''),
      (''doxygenstruct'', ''DoxygenClassDirective'', ''breathe.directives.class_like''),
      (''doxygenfunction'', ''DoxygenFunctionDirective'', ''breathe.directives.function'')]"

definition register_optional_directives :: "host_env \<Rightarrow> registry \<Rightarrow> registry" where
  "register_optional_directives env st =
     fold (\<lambda>(directive_name, directive_cls, importlib_name).
             add_optional_directive directive_name directive_cls importlib_name env)
       optional_directives st"

text \<open>The whole of \<^verbatim>\<open>register\<close>.\<close>

definition register :: "host_env \<Rightarrow> registry \<Rightarrow> error + registry" where
  "register env st =
     bind_err
       (register_base_grammar env (directive_registry env)
          (register_role_directive
             (register_default_domain env (register_domains env (register_roles st)))))
       (\<lambda>st1.
     bind_err (register_sphinx_tabs env (register_autodoc env (register_sphinx env st1))) (\<lambda>st2.
     bind_err (register_sphinx_click env st2) (\<lambda>st3.
     bind_err (register_sphinxarg env st3) (\<lambda>st4.
     Inr (register_optional_directives env (register_esp_docs env st4))))))"

subsection \<open>Example environments\<close>

text \<open>A directive class as the host defines one, with its own \<^verbatim>\<open>run\<close>.\<close>

definition host_cls :: "string \<Rightarrow> nat \<Rightarrow> nat \<Rightarrow> bool \<Rightarrow> string list \<Rightarrow> directive_cls" where
  "host_cls nm req opt cont opts =
     \<lparr> cls_name = nm, required_arguments = req, optional_arguments = opt,
       final_argument_whitespace = False, has_content = cont,
       option_spec = Declared_spec opts, run = Run_original nm, raw = None \<rparr>"

definition c_domain :: domain where
  "c_domain =
     \<lparr> dom_name = ''c'',
       dom_roles = [(''func'', Host_role ''CXRefRole'' True), (''expr'', Host_role ''CExprRole'' False)],
       dom_directives = [(''function'', host_cls ''CFunctionObject'' 1 0 True [''noindex''])] \<rparr>"

definition py_domain :: domain where
  "py_domain =
     \<lparr> dom_name = ''py'',
       dom_roles = [(''func'', Host_role ''PyXRefRole'' True)],
       dom_directives = [(''function'', host_cls ''PyFunction'' 1 0 True [''async''])] \<rparr>"

definition example_modules :: "(string \<times> py_module) list" where
  "example_modules =
     [(''docutils.parsers.rst.directives.admonitions'',
         Py_module [(''Note'', host_cls ''Note'' 0 0 True [''class'', ''name''])] []),
      (''docutils.parsers.rst.directives.misc'',
         Py_module [(''Role'', host_cls ''Role'' 0 0 True [])] []),
      (''docutils.parsers.rst.directives.images'',
         Py_module [(''Image'', host_cls ''Image'' 1 0 False [''alt'', ''width''])] []),
      (''sphinxcontrib.blockdiag'',
         Py_module [(''Blockdiag'', host_cls ''Blockdiag'' 0 1 True [''alt''])] [])]"

text \<open>
  A small host: two domains under the base class of all domains, three directives of
  the base grammar, three documenters, and of the optional packages only
  \<^verbatim>\<open>sphinxcontrib.blockdiag\<close>.
\<close>

definition example_env :: host_env where
  "example_env =
     \<lparr> Domain_hier =
         Hier \<lparr>dom_name = '''', dom_roles = [], dom_directives = []\<rparr>
           [Hier c_domain [], Hier py_domain []],
       PythonDomain_directives = dom_directives py_domain,
       directive_registry =
         [(''note'', ''admonitions'', ''Note''),
          (''role'', ''misc'', ''Role''),
          (''image'', ''images'', ''Image'')],
       import_module = map_of example_modules,
       Glossary = host_cls ''Glossary'' 0 0 True [''sorted''],
       LiteralInclude = host_cls ''LiteralInclude'' 1 0 False [''lines''],
       TocTree = host_cls ''TocTree'' 0 0 True [''maxdepth''],
       VersionChange = host_cls ''VersionChange'' 1 1 True [],
       Only = host_cls ''Only'' 1 0 True [],
       Highlight = host_cls ''Highlight'' 1 0 False [''linenothreshold''],
       Todo = host_cls ''Todo'' 0 0 True [''class''],
       Documenter_hier =
         Hier \<lparr>doc_cls_name = ''Documenter'', objtype = ''object''\<rparr>
           [Hier \<lparr>doc_cls_name = ''ModuleDocumenter'', objtype = ''module''\<rparr> [],
            Hier \<lparr>doc_cls_name = ''ClassDocumenter'', objtype = ''class''\<rparr> []],
       AutodocDirective = host_cls ''AutodocDirective'' 1 0 True [] \<rparr>"

text \<open>The same host with a \<^verbatim>\<open>sphinx_tabs.tabs\<close> that has all four directive classes.\<close>

definition example_env_tabs :: host_env where
  "example_env_tabs =
     example_env\<lparr>import_module :=
       (import_module example_env)(''sphinx_tabs.tabs'' \<mapsto>
          Py_module
            [(''TabsDirective'', host_cls ''TabsDirective'' 0 0 True []),
             (''TabDirective'', host_cls ''TabDirective'' 0 0 True []),
             (''GroupTabDirective'', host_cls ''GroupTabDirective'' 0 0 True []),
             (''CodeTabDirective'', host_cls ''CodeTabDirective'' 1 1 True [])] [])\<rparr>"

text \<open>The same host with a \<^verbatim>\<open>sphinx_tabs.tabs\<close> that has no \<^verbatim>\<open>GroupTabDirective\<close>.\<close>

definition example_env_partial_tabs :: host_env where
  "example_env_partial_tabs =
     example_env\<lparr>import_module :=
       (import_module example_env)(''sphinx_tabs.tabs'' \<mapsto>
          Py_module
            [(''TabsDirective'', host_cls ''TabsDirective'' 0 0 True []),
             (''TabDirective'', host_cls ''TabDirective'' 0 0 True [])] [])\<rparr>"

text \<open>The same host with every optional package of lines 187 to 237 installed.\<close>

definition example_env_full :: host_env where
  "example_env_full =
     example_env_tabs\<lparr>import_module :=
       (import_module example_env_tabs)
         (''sphinx_click'' \<mapsto>
            Py_module []
              [(''ext'', Py_module [(''ClickDirective'', host_cls ''ClickDirective'' 1 0 False [])] [])],
          ''sphinxarg.ext'' \<mapsto>
            Py_module [(''ArgParseDirective'', host_cls ''ArgParseDirective'' 0 0 True [])] [],
          ''esp_docs.esp_extensions.include_build_file'' \<mapsto>
            Py_module [(''IncludeBuildFile'', host_cls ''IncludeBuildFile'' 1 0 False [])] [],
          ''esp_docs.generic_extensions.list_filter'' \<mapsto>
            Py_module [(''ListFilter'', host_cls ''ListFilter'' 0 0 True [])] [])\<rparr>"

definition empty_registry :: registry where
  "empty_registry = \<lparr> role_registry = Map.empty, directives_reg = Map.empty \<rparr>"

definition example_invocation :: "directive_cls \<Rightarrow> invocation" where
  "example_invocation c =
     \<lparr> inv_cls = c, inv_name = ''note'', arguments = [],
       options = [(''unknown-opt'', Opaque_text (Some ''value''))],
       content = [''some *text*''], lineno = 1, content_offset = 1,
       block_text = ''.. note:: some *text*'' \<rparr>"

subsection \<open>Auxiliary notions for the statements\<close>

text \<open>\<^verbatim>\<open>(attrs or {}).get(key)\<close>: what the caller's \<^verbatim>\<open>attrs\<close> say about an attribute.\<close>

definition attrs_get :: "(string \<rightharpoonup> pyval) option \<Rightarrow> string \<Rightarrow> pyval option" where
  "attrs_get attrs key = (case attrs of None \<Rightarrow> None | Some a \<Rightarrow> a key)"

text \<open>
  A class is a passthrough class when running an instance of it returns the instance,
  wrapped in one \<open>directive\<close> node, and nothing else.
\<close>

definition passthrough_cls :: "directive_cls \<Rightarrow> bool" where
  "passthrough_cls c \<longleftrightarrow> run c = Run_passthrough \<and> option_spec c = DummyOptionSpec"

text \<open>
  How a part of \<^verbatim>\<open>register\<close> may change the directive registry: under each name the
  entry is the one from before, or a class for which \<open>Q\<close> holds.
\<close>

definition dir_upd :: "(string \<Rightarrow> directive_cls \<Rightarrow> bool) \<Rightarrow> registry \<Rightarrow> registry \<Rightarrow> bool" where
  "dir_upd Q st st' \<longleftrightarrow>
     (\<forall>n. directives_reg st' n = directives_reg st n
          \<or> (\<exists>c. directives_reg st' n = Some c \<and> Q n c))"

text \<open>
  How a part of \<^verbatim>\<open>register\<close> may change the role registry: under each name the entry
  is the one from before, or an instance of the module's \<^verbatim>\<open>ReferenceRole\<close>.
\<close>

definition role_upd :: "registry \<Rightarrow> registry \<Rightarrow> bool" where
  "role_upd st st' \<longleftrightarrow>
     (\<forall>n. role_registry st' n = role_registry st n
          \<or> role_registry st' n = Some ReferenceRole_inst)"

text \<open>The names under which the loop over the documenters may register.\<close>

definition autodoc_names :: "host_env \<Rightarrow> string set" where
  "autodoc_names env = (\<lambda>d. ''auto'' @ objtype d) ` set (subclasses (Documenter_hier env))"

text \<open>
  The registrations of lines 172 to 250, as pairs of a name and the \<^verbatim>\<open>raw\<close>
  argument (\<open>None\<close> where the call leaves it out).
\<close>

definition later_reg :: "host_env \<Rightarrow> string \<Rightarrow> bool option \<Rightarrow> bool" where
  "later_reg env n r \<longleftrightarrow>
     (n = ''glossary'' \<and> r = Some False)
     \<or> (n \<in> {''literalinclude'', ''toctree'', ''versionadded'', ''only'', ''highlight'', ''todo''}
          \<and> r = None)
     \<or> (n \<in> autodoc_names env \<and> r = Some False)
     \<or> (n \<in> {''tabs'', ''tab'', ''group-tab''} \<and> r = Some False)
     \<or> (n \<in> {''code-tab'', ''click'', ''argparse'', ''include-build-file'', ''list''} \<and> r = None)
     \<or> (n \<in> fst ` set optional_directives \<and> r = None)"

text \<open>What a run of \<^verbatim>\<open>register\<close> left under a name; nothing when the run raised.\<close>

definition registered_directive :: "error + registry \<Rightarrow> string \<Rightarrow> directive_cls option" where
  "registered_directive res n = (case res of Inl e \<Rightarrow> None | Inr st \<Rightarrow> directives_reg st n)"

definition registered_role :: "error + registry \<Rightarrow> string \<Rightarrow> role_callable option" where
  "registered_role res n = (case res of Inl e \<Rightarrow> None | Inr st \<Rightarrow> role_registry st n)"

definition raised :: "error + registry \<Rightarrow> bool" where
  "raised res = (case res of Inl e \<Rightarrow> True | Inr st \<Rightarrow> False)"

section \<open>Proofs\<close>

subsection \<open>The registries after one call\<close>

lemma directives_reg_add_directive:
  "directives_reg (add_directive n c a r st) = (directives_reg st)(n \<mapsto> interceptor_cls c a r)"
  by (simp add: add_directive_def register_directive_def)

lemma role_registry_add_directive:
  "role_registry (add_directive n c a r st) = role_registry st"
  by (simp add: add_directive_def register_directive_def)

lemma directives_reg_register_canonical_role:
  "directives_reg (register_canonical_role n f st) = directives_reg st"
  by (simp add: register_canonical_role_def)

lemma role_registry_register_canonical_role:
  "role_registry (register_canonical_role n f st) = (role_registry st)(n \<mapsto> f)"
  by (simp add: register_canonical_role_def)

subsection \<open>The synthesized class\<close>

lemma run_type_new:
  "run (type_new nm base ns) = (case ns ''run'' of Some (V_run r) \<Rightarrow> r | _ \<Rightarrow> run base)"
  by (simp add: type_new_def)

lemma option_spec_type_new:
  "option_spec (type_new nm base ns) =
     (case ns ''option_spec'' of Some (V_spec s) \<Rightarrow> s | _ \<Rightarrow> option_spec base)"
  by (simp add: type_new_def)

lemma raw_type_new:
  "raw (type_new nm base ns) = (case ns ''raw'' of Some (V_bool b) \<Rightarrow> Some b | _ \<Rightarrow> raw base)"
  by (simp add: type_new_def)

lemma run_interceptor_cls:
  assumes "attrs_get attrs ''run'' = None"
  shows "run (interceptor_cls cls attrs r) = Run_passthrough"
proof (cases attrs)
  case None
  then show ?thesis by (simp add: interceptor_cls_def run_type_new)
next
  case (Some a)
  with assms have "a ''run'' = None" by (simp add: attrs_get_def)
  with Some show ?thesis by (simp add: interceptor_cls_def run_type_new map_add_def)
qed

lemma option_spec_interceptor_cls:
  assumes "attrs_get attrs ''option_spec'' = None"
  shows "option_spec (interceptor_cls cls attrs r) = DummyOptionSpec"
proof (cases attrs)
  case None
  then show ?thesis by (simp add: interceptor_cls_def option_spec_type_new)
next
  case (Some a)
  with assms have "a ''option_spec'' = None" by (simp add: attrs_get_def)
  with Some show ?thesis by (simp add: interceptor_cls_def option_spec_type_new map_add_def)
qed

lemma raw_interceptor_cls:
  assumes "attrs_get attrs ''raw'' = None"
  shows "raw (interceptor_cls cls attrs r) = Some (case r of None \<Rightarrow> True | Some b \<Rightarrow> b)"
proof (cases attrs)
  case None
  then show ?thesis by (simp add: interceptor_cls_def raw_type_new)
next
  case (Some a)
  with assms have "a ''raw'' = None" by (simp add: attrs_get_def)
  with Some show ?thesis by (simp add: interceptor_cls_def raw_type_new map_add_def)
qed

lemma passthrough_interceptor_cls:
  "passthrough_cls (interceptor_cls cls None r)"
  by (simp add: passthrough_cls_def run_interceptor_cls option_spec_interceptor_cls attrs_get_def)

lemma passthrough_role_cls:
  "passthrough_cls (interceptor_cls cls (Some [''required_arguments'' \<mapsto> V_int 1]) r)"
  by (simp add: passthrough_cls_def run_interceptor_cls option_spec_interceptor_cls attrs_get_def)

lemma passthrough_call_run:
  "passthrough_cls c \<Longrightarrow> inv_cls self = c \<Longrightarrow> call_run self = Returned [directive self]"
  by (simp add: passthrough_cls_def call_run_def)

subsection \<open>Loops\<close>

lemma fold_preserves:
  assumes "\<And>x s. x \<in> set xs \<Longrightarrow> P s \<Longrightarrow> P (f x s)" and "P st"
  shows "P (fold f xs st)"
  using assms by (induction xs arbitrary: st) simp_all

lemma fold_establishes:
  assumes "x \<in> set xs"
    and "\<And>s. P (f x s)"
    and "\<And>y s. y \<in> set xs \<Longrightarrow> P s \<Longrightarrow> P (f y s)"
  shows "P (fold f xs st)"
  using assms
proof (induction xs arbitrary: st)
  case Nil
  then show ?case by simp
next
  case (Cons y ys)
  show ?case
  proof (cases "x \<in> set ys")
    case True
    then show ?thesis using Cons.IH Cons.prems(2,3) by simp
  next
    case False
    then have "y = x" using Cons.prems(1) by simp
    then have "P (f y st)" using Cons.prems(2) by simp
    moreover have "\<And>z s. z \<in> set ys \<Longrightarrow> P s \<Longrightarrow> P (f z s)"
      using Cons.prems(3) by simp
    ultimately have "P (fold f ys (f y st))"
      using fold_preserves [of ys P f "f y st"] by blast
    then show ?thesis by simp
  qed
qed

subsection \<open>Changes to the directive registry\<close>

lemma dir_upd_refl: "dir_upd Q st st"
  by (simp add: dir_upd_def)

lemma dir_upd_trans: "dir_upd Q st st1 \<Longrightarrow> dir_upd Q st1 st2 \<Longrightarrow> dir_upd Q st st2"
  unfolding dir_upd_def
proof
  fix n
  assume a: "\<forall>n. directives_reg st1 n = directives_reg st n
                \<or> (\<exists>c. directives_reg st1 n = Some c \<and> Q n c)"
    and b: "\<forall>n. directives_reg st2 n = directives_reg st1 n
                \<or> (\<exists>c. directives_reg st2 n = Some c \<and> Q n c)"
  from a have "directives_reg st1 n = directives_reg st n
                \<or> (\<exists>c. directives_reg st1 n = Some c \<and> Q n c)" ..
  moreover from b have "directives_reg st2 n = directives_reg st1 n
                \<or> (\<exists>c. directives_reg st2 n = Some c \<and> Q n c)" ..
  ultimately show "directives_reg st2 n = directives_reg st n
                \<or> (\<exists>c. directives_reg st2 n = Some c \<and> Q n c)" by auto
qed

lemma dir_upd_same: "directives_reg st' = directives_reg st \<Longrightarrow> dir_upd Q st st'"
  by (simp add: dir_upd_def)

lemma dir_upd_add_directive:
  "Q n (interceptor_cls c a r) \<Longrightarrow> dir_upd Q st (add_directive n c a r st)"
  by (simp add: dir_upd_def directives_reg_add_directive)

lemma dir_upd_fold:
  assumes "\<And>x s. x \<in> set xs \<Longrightarrow> dir_upd Q s (f x s)"
  shows "dir_upd Q st (fold f xs st)"
proof (rule fold_preserves [where P = "dir_upd Q st"])
  show "dir_upd Q st st" by (rule dir_upd_refl)
next
  fix x s assume "x \<in> set xs" and "dir_upd Q st s"
  then show "dir_upd Q st (f x s)" using assms dir_upd_trans by blast
qed

lemma dir_upd_keeps:
  assumes "dir_upd Q st st'" and "directives_reg st n = Some c" and "P c"
    and "\<And>c'. Q n c' \<Longrightarrow> P c'"
  shows "\<exists>c'. directives_reg st' n = Some c' \<and> P c'"
proof -
  from assms(1) have "directives_reg st' n = directives_reg st n
      \<or> (\<exists>c. directives_reg st' n = Some c \<and> Q n c)"
    by (simp add: dir_upd_def)
  then show ?thesis using assms(2,3,4) by auto
qed

lemma dir_upd_add_step:
  "Q n (interceptor_cls c a r) \<Longrightarrow> dir_upd Q st s \<Longrightarrow> dir_upd Q st (add_directive n c a r s)"
  using dir_upd_add_directive dir_upd_trans by blast

lemma dir_upd_role_step:
  "dir_upd Q st s \<Longrightarrow> dir_upd Q st (register_canonical_role n f s)"
  by (simp add: dir_upd_def directives_reg_register_canonical_role)

lemma dir_upd_fold_step:
  assumes "dir_upd Q st s" and "\<And>x s'. x \<in> set xs \<Longrightarrow> dir_upd Q s' (f x s')"
  shows "dir_upd Q st (fold f xs s)"
  using assms(1) dir_upd_fold [of xs Q f s, OF assms(2)] dir_upd_trans by blast

lemma bind_err_Inr:
  "bind_err x f = Inr y \<longleftrightarrow> (\<exists>v. x = Inr v \<and> f v = Inr y)"
  by (cases x) (simp_all add: bind_err_def)

subsection \<open>The blocks of register and the directive registry\<close>

lemma directives_reg_register_roles:
  "directives_reg (register_roles st) = directives_reg st"
  by (simp add: register_roles_def directives_reg_register_canonical_role)

lemma dir_upd_register_domain_role:
  "dir_upd Q s (register_domain_role dn item s)"
  by (cases item)
     (simp add: register_domain_role_def dir_upd_def directives_reg_register_canonical_role)

lemma dir_upd_register_domain:
  assumes "\<And>nm c. (nm, c) \<in> set (dom_directives d) \<Longrightarrow>
             Q (dom_name d @ '':'' @ nm) (interceptor_cls c None None)"
  shows "dir_upd Q st (register_domain d st)"
  unfolding register_domain_def
proof (rule dir_upd_fold_step)
  show "dir_upd Q st (fold (register_domain_role (dom_name d)) (dom_roles d) st)"
    by (rule dir_upd_fold) (rule dir_upd_register_domain_role)
next
  fix x s' assume mem: "x \<in> set (dom_directives d)"
  obtain nm c where x: "x = (nm, c)" by (cases x) auto
  have "Q (dom_name d @ '':'' @ nm) (interceptor_cls c None None)"
    using assms mem x by simp
  then show "dir_upd Q s' (register_domain_directive (dom_name d) x s')"
    by (simp add: x register_domain_directive_def dir_upd_add_directive)
qed

lemma dir_upd_register_domains:
  assumes "\<And>d nm c. d \<in> set (subclasses (Domain_hier env)) \<Longrightarrow>
             (nm, c) \<in> set (dom_directives d) \<Longrightarrow>
             Q (dom_name d @ '':'' @ nm) (interceptor_cls c None None)"
  shows "dir_upd Q st (register_domains env st)"
  unfolding register_domains_def
  by (rule dir_upd_fold) (rule dir_upd_register_domain, rule assms)

lemma dir_upd_register_default_domain:
  assumes "\<And>nm c. (nm, c) \<in> set (PythonDomain_directives env) \<Longrightarrow>
             Q nm (interceptor_cls c None None)"
  shows "dir_upd Q st (register_default_domain env st)"
  unfolding register_default_domain_def
proof (rule dir_upd_fold)
  fix x s assume mem: "x \<in> set (PythonDomain_directives env)"
  obtain nm c where x: "x = (nm, c)" by (cases x) auto
  have "Q nm (interceptor_cls c None None)"
    using assms mem x by simp
  then show "dir_upd Q s ((\<lambda>(nm, directive_cls). add_directive nm directive_cls None None) x s)"
    by (simp add: x dir_upd_add_directive)
qed

lemma dir_upd_register_base_grammar:
  assumes "\<And>n c. n \<in> fst ` set reg \<Longrightarrow> n \<notin> exclude_directives \<Longrightarrow>
             Q n (interceptor_cls c None (Some (n \<notin> non_raw_directives)))"
    and "register_base_grammar env reg st = Inr st'"
  shows "dir_upd Q st st'"
  using assms
proof (induction reg arbitrary: st)
  case Nil
  then show ?case by (simp add: dir_upd_refl)
next
  case (Cons item reg)
  obtain n module cls_nm where item: "item = (n, module, cls_nm)"
    by (cases item) auto
  have Q': "\<And>n c. n \<in> fst ` set reg \<Longrightarrow> n \<notin> exclude_directives \<Longrightarrow>
             Q n (interceptor_cls c None (Some (n \<notin> non_raw_directives)))"
    using Cons.prems(1) by simp
  show ?case
  proof (cases "n \<in> exclude_directives")
    case True
    then have "register_base_grammar env reg st = Inr st'"
      using Cons.prems(2) item by simp
    then show ?thesis using Cons.IH Q' by blast
  next
    case False
    then obtain cls where
      rest: "register_base_grammar env reg
               (add_directive n cls None (Some (n \<notin> non_raw_directives)) st) = Inr st'"
      using Cons.prems(2) item
      by (auto simp: bind_err_Inr split: option.splits)
    have "Q n (interceptor_cls cls None (Some (n \<notin> non_raw_directives)))"
      using Cons.prems(1) False item by simp
    then have "dir_upd Q st (add_directive n cls None (Some (n \<notin> non_raw_directives)) st)"
      by (rule dir_upd_add_directive)
    moreover have "dir_upd Q (add_directive n cls None (Some (n \<notin> non_raw_directives)) st) st'"
      using Cons.IH Q' rest by blast
    ultimately show ?thesis by (rule dir_upd_trans)
  qed
qed


lemma dir_upd_register_sphinx:
  assumes "\<And>n c r. later_reg env n r \<Longrightarrow> Q n (interceptor_cls c None r)"
  shows "dir_upd Q st (register_sphinx env st)"
  unfolding register_sphinx_def
  by (intro dir_upd_add_step dir_upd_refl assms) (simp_all add: later_reg_def)

lemma dir_upd_register_autodoc:
  assumes "\<And>n c r. later_reg env n r \<Longrightarrow> Q n (interceptor_cls c None r)"
  shows "dir_upd Q st (register_autodoc env st)"
  unfolding register_autodoc_def
proof (rule dir_upd_fold)
  fix d s assume "d \<in> set (remdups (subclasses (Documenter_hier env)))"
  then have "later_reg env (''auto'' @ objtype d) (Some False)"
    by (simp add: later_reg_def autodoc_names_def)
  then have "Q (''auto'' @ objtype d) (interceptor_cls (AutodocDirective env) None (Some False))"
    by (rule assms)
  then show "dir_upd Q s
     (if objtype d \<noteq> ''object''
      then add_directive (''auto'' @ objtype d) (AutodocDirective env) None (Some False) s
      else s)"
    by (simp add: dir_upd_add_directive dir_upd_refl)
qed

lemma dir_upd_register_sphinx_tabs:
  assumes "\<And>n c r. later_reg env n r \<Longrightarrow> Q n (interceptor_cls c None r)"
    and "register_sphinx_tabs env st = Inr st'"
  shows "dir_upd Q st st'"
proof (cases "import_module env ''sphinx_tabs.tabs''")
  case None
  then have "st' = st" using assms(2) by (simp add: register_sphinx_tabs_def)
  then show ?thesis by (simp add: dir_upd_refl)
next
  case (Some m)
  then obtain c1 c2 c3 c4 where
    "st' = add_directive ''code-tab'' c4 None None
            (add_directive ''group-tab'' c3 None (Some False)
              (add_directive ''tab'' c2 None (Some False)
                (add_directive ''tabs'' c1 None (Some False) st)))"
    using assms(2) by (auto simp: register_sphinx_tabs_def bind_err_Inr)
  then show ?thesis
    by (auto intro!: dir_upd_add_step dir_upd_refl assms simp: later_reg_def)
qed

lemma dir_upd_register_sphinx_click:
  assumes "\<And>n c r. later_reg env n r \<Longrightarrow> Q n (interceptor_cls c None r)"
    and "register_sphinx_click env st = Inr st'"
  shows "dir_upd Q st st'"
proof (cases "import_module env ''sphinx_click''")
  case None
  then have "st' = st" using assms(2) by (simp add: register_sphinx_click_def)
  then show ?thesis by (simp add: dir_upd_refl)
next
  case (Some m)
  then obtain c where "st' = add_directive ''click'' c None None st"
    using assms(2) by (auto simp: register_sphinx_click_def bind_err_Inr)
  then show ?thesis
    by (auto intro!: dir_upd_add_step dir_upd_refl assms simp: later_reg_def)
qed

lemma dir_upd_register_sphinxarg:
  assumes "\<And>n c r. later_reg env n r \<Longrightarrow> Q n (interceptor_cls c None r)"
    and "register_sphinxarg env st = Inr st'"
  shows "dir_upd Q st st'"
proof (cases "import_module env ''sphinxarg.ext''")
  case None
  then have "st' = st" using assms(2) by (simp add: register_sphinxarg_def)
  then show ?thesis by (simp add: dir_upd_refl)
next
  case (Some m)
  then obtain c where "st' = add_directive ''argparse'' c None None st"
    using assms(2) by (auto simp: register_sphinxarg_def bind_err_Inr)
  then show ?thesis
    by (auto intro!: dir_upd_add_step dir_upd_refl assms simp: later_reg_def)
qed

lemma dir_upd_register_esp_docs:
  assumes "\<And>n c r. later_reg env n r \<Longrightarrow> Q n (interceptor_cls c None r)"
  shows "dir_upd Q st (register_esp_docs env st)"
proof -
  have roles: "dir_upd Q st (fold (\<lambda>r. register_canonical_role r ReferenceRole_inst) esp_roles st)"
    by (rule dir_upd_fold) (simp add: dir_upd_role_step dir_upd_refl)
  show ?thesis
    unfolding register_esp_docs_def
    by (auto split: option.splits intro!: dir_upd_add_step roles dir_upd_refl assms
             simp: later_reg_def)
qed

lemma dir_upd_add_optional_directive:
  assumes "\<And>c. Q n (interceptor_cls c None None)"
  shows "dir_upd Q st (add_optional_directive n cn m env st)"
  unfolding add_optional_directive_def
  by (auto split: option.splits intro!: dir_upd_add_directive dir_upd_refl assms)

lemma dir_upd_register_optional_directives:
  assumes "\<And>n c r. later_reg env n r \<Longrightarrow> Q n (interceptor_cls c None r)"
  shows "dir_upd Q st (register_optional_directives env st)"
  unfolding register_optional_directives_def
proof (rule dir_upd_fold)
  fix x s assume mem: "x \<in> set optional_directives"
  obtain n cn m where x: "x = (n, cn, m)" by (cases x) auto
  have "later_reg env n None"
    using mem x by (force simp: later_reg_def)
  then have "\<And>c. Q n (interceptor_cls c None None)" by (rule assms)
  then have "dir_upd Q s (add_optional_directive n cn m env s)"
    unfolding add_optional_directive_def
    by (auto split: option.splits intro!: dir_upd_add_directive dir_upd_refl)
  then show "dir_upd Q s
     ((\<lambda>(directive_name, directive_cls, importlib_name).
          add_optional_directive directive_name directive_cls importlib_name env) x s)"
    by (simp add: x)
qed

text \<open>Lines 172 to 250 as one step.\<close>

lemma dir_upd_later:
  assumes Q: "\<And>n c r. later_reg env n r \<Longrightarrow> Q n (interceptor_cls c None r)"
    and run: "bind_err (register_sphinx_tabs env (register_autodoc env (register_sphinx env st1)))
       (\<lambda>st2. bind_err (register_sphinx_click env st2)
       (\<lambda>st3. bind_err (register_sphinxarg env st3)
       (\<lambda>st4. Inr (register_optional_directives env (register_esp_docs env st4))))) = Inr st'"
  shows "dir_upd Q st1 st'"
proof -
  from run obtain st2 st3 st4 where
    tabs: "register_sphinx_tabs env (register_autodoc env (register_sphinx env st1)) = Inr st2"
    and click: "register_sphinx_click env st2 = Inr st3"
    and arg: "register_sphinxarg env st3 = Inr st4"
    and fin: "st' = register_optional_directives env (register_esp_docs env st4)"
    by (auto simp: bind_err_Inr)
  have "dir_upd Q st1 (register_sphinx env st1)"
    using Q by (rule dir_upd_register_sphinx)
  moreover have "dir_upd Q (register_sphinx env st1) (register_autodoc env (register_sphinx env st1))"
    using Q by (rule dir_upd_register_autodoc)
  moreover have "dir_upd Q (register_autodoc env (register_sphinx env st1)) st2"
    using Q tabs by (rule dir_upd_register_sphinx_tabs)
  moreover have "dir_upd Q st2 st3"
    using Q click by (rule dir_upd_register_sphinx_click)
  moreover have "dir_upd Q st3 st4"
    using Q arg by (rule dir_upd_register_sphinxarg)
  moreover have "dir_upd Q st4 (register_esp_docs env st4)"
    using Q by (rule dir_upd_register_esp_docs)
  moreover have "dir_upd Q (register_esp_docs env st4) st'"
    unfolding fin using Q by (rule dir_upd_register_optional_directives)
  ultimately show ?thesis
    using dir_upd_trans by blast
qed

subsection \<open>The generic role\<close>

text \<open>
  C5. For every entry of the alias table, the generic role invoked under the alias
  spelling returns one \<open>role\<close> node whose role name is the canonical spelling of the
  entry (and no messages); the role \<^verbatim>\<open>pep\<close> with the text \<^verbatim>\<open>8\<close> gives a node with the
  name \<^verbatim>\<open>PEP\<close> and the content \<^verbatim>\<open>8\<close>.
\<close>

theorem generic_role_alias_canonical:
  "(\<forall>(alias, canonical) \<in> set role_aliases.
      generic_role alias rawtext t = ([role rawtext (unescape t) canonical], []))
   \<and> generic_role ''pep'' rawtext ''8'' = ([role rawtext ''8'' ''PEP''], [])"
  by (simp add: generic_role_def role_aliases_def lower_def lower_char_def unescape_def)

theorem generic_role_alias_canonical_witness:
  "(''rfc'', ''RFC'') \<in> set role_aliases
   \<and> generic_role ''rfc'' '':rfc:`2822`'' ''2822'' = ([role '':rfc:`2822`'' ''2822'' ''RFC''], [])"
proof -
  have mem: "(''rfc'', ''RFC'') \<in> set role_aliases"
    by (simp add: role_aliases_def)
  have "\<forall>(alias, canonical) \<in> set role_aliases.
      generic_role alias '':rfc:`2822`'' ''2822''
        = ([role '':rfc:`2822`'' (unescape ''2822'') canonical], [])"
    using generic_role_alias_canonical [of "'':rfc:`2822`''" "''2822''"] by blast
  with mem have "generic_role ''rfc'' '':rfc:`2822`'' ''2822''
        = ([role '':rfc:`2822`'' (unescape ''2822'') ''RFC''], [])"
    by blast
  with mem show ?thesis by (simp add: unescape_def)
qed

text \<open>
  C10. The generic role looks the lowercased role name up in the alias table: a name
  whose lowercase form is an alias is stored as the canonical spelling of that alias,
  whatever its case (\<^verbatim>\<open>PEP\<close> and \<^verbatim>\<open>Pep\<close> give \<^verbatim>\<open>PEP\<close>); a name whose lowercase form
  is no alias is stored as it was written.
\<close>

theorem generic_role_case_insensitive:
  "(map_of role_aliases (lower r) = Some canonical \<longrightarrow>
      generic_role r rawtext t = ([role rawtext (unescape t) canonical], []))
   \<and> (map_of role_aliases (lower r) = None \<longrightarrow>
      generic_role r rawtext t = ([role rawtext (unescape t) r], []))
   \<and> generic_role ''PEP'' rawtext t = ([role rawtext (unescape t) ''PEP''], [])
   \<and> generic_role ''Pep'' rawtext t = ([role rawtext (unescape t) ''PEP''], [])"
  by (simp add: generic_role_def role_aliases_def lower_def lower_char_def)

theorem generic_role_case_insensitive_witness:
  "map_of role_aliases (lower ''SuperScript'') = Some ''sup''
   \<and> generic_role ''SuperScript'' '':SuperScript:`2`'' ''2'' = ([role '':SuperScript:`2`'' ''2'' ''sup''], [])
   \<and> map_of role_aliases (lower ''Math'') = None
   \<and> generic_role ''Math'' '':Math:`x`'' ''x'' = ([role '':Math:`x`'' ''x'' ''Math''], [])"
proof -
  have a: "map_of role_aliases (lower ''SuperScript'') = Some ''sup''"
    by (simp add: role_aliases_def lower_def lower_char_def)
  have b: "map_of role_aliases (lower ''Math'') = None"
    by (simp add: role_aliases_def lower_def lower_char_def)
  have "generic_role ''SuperScript'' '':SuperScript:`2`'' ''2''
          = ([role '':SuperScript:`2`'' (unescape ''2'') ''sup''], [])"
    using a generic_role_case_insensitive [of "''SuperScript''" "''sup''" "'':SuperScript:`2`''" "''2''"]
    by blast
  moreover have "generic_role ''Math'' '':Math:`x`'' ''x''
          = ([role '':Math:`x`'' (unescape ''x'') ''Math''], [])"
    using b generic_role_case_insensitive [of "''Math''" "''sup''" "'':Math:`x`''" "''x''"]
    by blast
  ultimately show ?thesis using a b by (simp add: unescape_def)
qed

subsection \<open>The run of register, step by step\<close>

lemma register_steps:
  assumes "register env st = Inr st'"
  obtains st1 st2 st3 st4 where
    "register_base_grammar env (directive_registry env)
       (register_role_directive
          (register_default_domain env (register_domains env (register_roles st)))) = Inr st1"
    and "register_sphinx_tabs env (register_autodoc env (register_sphinx env st1)) = Inr st2"
    and "register_sphinx_click env st2 = Inr st3"
    and "register_sphinxarg env st3 = Inr st4"
    and "st' = register_optional_directives env (register_esp_docs env st4)"
  using assms by (auto simp: register_def bind_err_Inr)

lemma register_later:
  assumes "register env st = Inr st'"
  obtains st1 where
    "register_base_grammar env (directive_registry env)
       (register_role_directive
          (register_default_domain env (register_domains env (register_roles st)))) = Inr st1"
    and "bind_err (register_sphinx_tabs env (register_autodoc env (register_sphinx env st1)))
       (\<lambda>st2. bind_err (register_sphinx_click env st2)
       (\<lambda>st3. bind_err (register_sphinxarg env st3)
       (\<lambda>st4. Inr (register_optional_directives env (register_esp_docs env st4))))) = Inr st'"
  using assms by (auto simp: register_def bind_err_Inr)

lemma dir_upd_register_role_directive:
  assumes "Q ''role'' (interceptor_cls Directive (Some [''required_arguments'' \<mapsto> V_int 1]) None)"
  shows "dir_upd Q st (register_role_directive st)"
  unfolding register_role_directive_def using assms by (rule dir_upd_add_directive)

text \<open>Whatever \<^verbatim>\<open>register\<close> writes into the directive registry is a passthrough class.\<close>

lemma register_writes_passthrough:
  assumes "register env st = Inr st'"
  shows "dir_upd (\<lambda>n c. passthrough_cls c) st st'"
proof -
  let ?Q = "\<lambda>(n::string) c. passthrough_cls c"
  from assms obtain st1 where
    base: "register_base_grammar env (directive_registry env)
       (register_role_directive
          (register_default_domain env (register_domains env (register_roles st)))) = Inr st1"
    and later: "bind_err (register_sphinx_tabs env (register_autodoc env (register_sphinx env st1)))
       (\<lambda>st2. bind_err (register_sphinx_click env st2)
       (\<lambda>st3. bind_err (register_sphinxarg env st3)
       (\<lambda>st4. Inr (register_optional_directives env (register_esp_docs env st4))))) = Inr st'"
    by (rule register_later)
  have "dir_upd ?Q st (register_roles st)"
    by (rule dir_upd_same) (rule directives_reg_register_roles)
  moreover have "dir_upd ?Q (register_roles st) (register_domains env (register_roles st))"
    by (rule dir_upd_register_domains) (rule passthrough_interceptor_cls)
  moreover have "dir_upd ?Q (register_domains env (register_roles st))
      (register_default_domain env (register_domains env (register_roles st)))"
    by (rule dir_upd_register_default_domain) (rule passthrough_interceptor_cls)
  moreover have "dir_upd ?Q (register_default_domain env (register_domains env (register_roles st)))
      (register_role_directive
         (register_default_domain env (register_domains env (register_roles st))))"
    by (rule dir_upd_register_role_directive) (rule passthrough_role_cls)
  moreover have "dir_upd ?Q
      (register_role_directive
         (register_default_domain env (register_domains env (register_roles st)))) st1"
    by (rule dir_upd_register_base_grammar [OF _ base]) (rule passthrough_interceptor_cls)
  moreover have "dir_upd ?Q st1 st'"
    by (rule dir_upd_later [OF _ later]) (rule passthrough_interceptor_cls)
  ultimately show ?thesis
    using dir_upd_trans by blast
qed

lemma parse_option_Dummy:
  "parse_option DummyOptionSpec (key, v) = Inr (key, Opaque_text v)"
  by (simp add: parse_option_def option_spec_getitem_def apply_converter_def)


lemmas example_defs =
  example_env_def example_env_tabs_def example_env_partial_tabs_def example_env_full_def
  example_modules_def
  c_domain_def py_domain_def host_cls_def empty_registry_def example_invocation_def

lemmas register_defs =
  register_def register_roles_def register_domains_def register_domain_def
  register_domain_role_def register_domain_directive_def register_default_domain_def
  register_role_directive_def exclude_directives_def non_raw_directives_def
  register_sphinx_def register_autodoc_def register_sphinx_tabs_def register_sphinx_click_def
  register_sphinxarg_def register_esp_docs_def from_import_def esp_roles_def
  optional_directives_def register_optional_directives_def add_optional_directive_def
  add_directive_def register_directive_def register_canonical_role_def
  interceptor_cls_def type_new_def Directive_def bind_err_def getattr_cls_def getattr_module_def

subsection \<open>The interceptor\<close>

text \<open>
  C2. Running an instance of a class that \<^verbatim>\<open>_add_directive\<close> registered (with
  \<^verbatim>\<open>attrs\<close> that do not replace \<^verbatim>\<open>run\<close>, as in every call of the module) returns
  the list of exactly one \<open>directive\<close> node that wraps the instance, with its arguments,
  options, content and position; the outcome is never the expansion of the original
  class. Every entry that \<^verbatim>\<open>register\<close> writes into the directive registry is such a
  class.
\<close>

theorem interceptor_run_passthrough:
  "(attrs_get attrs ''run'' = None \<longrightarrow>
      (\<exists>c. directives_reg (add_directive nm cls attrs raw_arg st) nm = Some c
         \<and> (\<forall>self. inv_cls self = c \<longrightarrow> call_run self = Returned [directive self])))
   \<and> (register env st0 = Inr st' \<longrightarrow>
      (\<forall>n. directives_reg st' n = directives_reg st0 n
         \<or> (\<exists>c. directives_reg st' n = Some c
              \<and> (\<forall>self. inv_cls self = c \<longrightarrow> call_run self = Returned [directive self]))))"
proof (intro conjI impI)
  assume "attrs_get attrs ''run'' = None"
  then have "run (interceptor_cls cls attrs raw_arg) = Run_passthrough"
    by (rule run_interceptor_cls)
  then show "\<exists>c. directives_reg (add_directive nm cls attrs raw_arg st) nm = Some c
         \<and> (\<forall>self. inv_cls self = c \<longrightarrow> call_run self = Returned [directive self])"
    by (simp add: directives_reg_add_directive call_run_def)
next
  assume "register env st0 = Inr st'"
  then have "dir_upd (\<lambda>n c. passthrough_cls c) st0 st'"
    by (rule register_writes_passthrough)
  then show "\<forall>n. directives_reg st' n = directives_reg st0 n
         \<or> (\<exists>c. directives_reg st' n = Some c
              \<and> (\<forall>self. inv_cls self = c \<longrightarrow> call_run self = Returned [directive self]))"
    unfolding dir_upd_def using passthrough_call_run by blast
qed

lemma example_env_image:
  "\<exists>st'. register example_env empty_registry = Inr st'
     \<and> directives_reg st' ''image'' \<noteq> directives_reg empty_registry ''image''"
  by (simp add: register_defs example_defs)

theorem interceptor_run_passthrough_witness:
  "attrs_get None ''run'' = None
   \<and> (\<exists>c. directives_reg
             (add_directive ''note'' (host_cls ''Note'' 0 0 True []) None (Some False) empty_registry)
             ''note'' = Some c
        \<and> inv_cls (example_invocation c) = c
        \<and> call_run (example_invocation c) = Returned [directive (example_invocation c)])
   \<and> (\<exists>st' c. register example_env empty_registry = Inr st'
        \<and> directives_reg st' ''image'' = Some c
        \<and> inv_cls (example_invocation c) = c
        \<and> call_run (example_invocation c) = Returned [directive (example_invocation c)])"
proof (intro conjI)
  show a: "attrs_get None ''run'' = None" by (simp add: attrs_get_def)
  have inv: "\<And>c. inv_cls (example_invocation c) = c" by (simp add: example_invocation_def)
  from a show "\<exists>c. directives_reg
             (add_directive ''note'' (host_cls ''Note'' 0 0 True []) None (Some False) empty_registry)
             ''note'' = Some c
        \<and> inv_cls (example_invocation c) = c
        \<and> call_run (example_invocation c) = Returned [directive (example_invocation c)]"
    using interceptor_run_passthrough
      [of None "''note''" "host_cls ''Note'' 0 0 True []" "Some False" empty_registry] inv
    by blast
  from example_env_image obtain st' where
    r: "register example_env empty_registry = Inr st'"
    and ne: "directives_reg st' ''image'' \<noteq> directives_reg empty_registry ''image''"
    by blast
  from r have "\<forall>n. directives_reg st' n = directives_reg empty_registry n
         \<or> (\<exists>c. directives_reg st' n = Some c
              \<and> (\<forall>self. inv_cls self = c \<longrightarrow> call_run self = Returned [directive self]))"
    using interceptor_run_passthrough [of None "''note''" _ _ _ example_env empty_registry st']
    by blast
  with ne obtain c where "directives_reg st' ''image'' = Some c"
    and "\<forall>self. inv_cls self = c \<longrightarrow> call_run self = Returned [directive self]"
    by blast
  with r inv show "\<exists>st' c. register example_env empty_registry = Inr st'
        \<and> directives_reg st' ''image'' = Some c
        \<and> inv_cls (example_invocation c) = c
        \<and> call_run (example_invocation c) = Returned [directive (example_invocation c)]"
    by blast
qed

text \<open>
  C3. A class that \<^verbatim>\<open>_add_directive\<close> registered (with \<^verbatim>\<open>attrs\<close> that replace neither
  \<^verbatim>\<open>option_spec\<close> nor \<^verbatim>\<open>run\<close>) has the relaxed option schema: an option with any name is
  accepted and its value is kept as the text that was written, and the node that running
  the instance returns carries the option with that value. Every entry that
  \<^verbatim>\<open>register\<close> writes into the directive registry has this schema.
\<close>

theorem interceptor_relaxed_options:
  "(attrs_get attrs ''option_spec'' = None \<and> attrs_get attrs ''run'' = None \<longrightarrow>
      (\<exists>c. directives_reg (add_directive nm cls attrs raw_arg st) nm = Some c
         \<and> option_spec c = DummyOptionSpec
         \<and> parse_option (option_spec c) (key, v) = Inr (key, Opaque_text v)
         \<and> call_run (self\<lparr>inv_cls := c, options := [(key, Opaque_text v)]\<rparr>)
             = Returned [directive (self\<lparr>inv_cls := c, options := [(key, Opaque_text v)]\<rparr>)]))
   \<and> (register env st0 = Inr st' \<longrightarrow>
      (\<forall>n. directives_reg st' n = directives_reg st0 n
         \<or> (\<exists>c. directives_reg st' n = Some c
              \<and> option_spec c = DummyOptionSpec
              \<and> parse_option (option_spec c) (key, v) = Inr (key, Opaque_text v))))"
proof (intro conjI impI)
  assume a: "attrs_get attrs ''option_spec'' = None \<and> attrs_get attrs ''run'' = None"
  then have "run (interceptor_cls cls attrs raw_arg) = Run_passthrough"
    and "option_spec (interceptor_cls cls attrs raw_arg) = DummyOptionSpec"
    by (simp_all add: run_interceptor_cls option_spec_interceptor_cls)
  then show "\<exists>c. directives_reg (add_directive nm cls attrs raw_arg st) nm = Some c
         \<and> option_spec c = DummyOptionSpec
         \<and> parse_option (option_spec c) (key, v) = Inr (key, Opaque_text v)
         \<and> call_run (self\<lparr>inv_cls := c, options := [(key, Opaque_text v)]\<rparr>)
             = Returned [directive (self\<lparr>inv_cls := c, options := [(key, Opaque_text v)]\<rparr>)]"
    by (simp add: directives_reg_add_directive call_run_def parse_option_Dummy)
next
  assume "register env st0 = Inr st'"
  then have "dir_upd (\<lambda>n c. passthrough_cls c) st0 st'"
    by (rule register_writes_passthrough)
  then show "\<forall>n. directives_reg st' n = directives_reg st0 n
         \<or> (\<exists>c. directives_reg st' n = Some c
              \<and> option_spec c = DummyOptionSpec
              \<and> parse_option (option_spec c) (key, v) = Inr (key, Opaque_text v))"
    unfolding dir_upd_def passthrough_cls_def using parse_option_Dummy by metis
qed

theorem interceptor_relaxed_options_witness:
  "attrs_get None ''option_spec'' = None \<and> attrs_get None ''run'' = None
   \<and> (\<exists>c. directives_reg
             (add_directive ''note'' (host_cls ''Note'' 0 0 True [''class'']) None (Some False)
                empty_registry) ''note'' = Some c
        \<and> parse_option (option_spec c) (''unknown-opt'', Some ''value'')
             = Inr (''unknown-opt'', Opaque_text (Some ''value''))
        \<and> call_run ((example_invocation Directive)
                      \<lparr>inv_cls := c, options := [(''unknown-opt'', Opaque_text (Some ''value''))]\<rparr>)
             = Returned [directive ((example_invocation Directive)
                      \<lparr>inv_cls := c, options := [(''unknown-opt'', Opaque_text (Some ''value''))]\<rparr>)])
   \<and> parse_option (option_spec (host_cls ''Note'' 0 0 True [''class'']))
        (''unknown-opt'', Some ''value'') = Inl (KeyError ''unknown-opt'')
   \<and> (\<exists>st' c. register example_env empty_registry = Inr st'
        \<and> directives_reg st' ''image'' = Some c
        \<and> parse_option (option_spec c) (''unknown-opt'', Some ''value'')
             = Inr (''unknown-opt'', Opaque_text (Some ''value'')))"
proof (intro conjI)
  show a: "attrs_get None ''option_spec'' = None" and b: "attrs_get None ''run'' = None"
    by (simp_all add: attrs_get_def)
  from a b show "\<exists>c. directives_reg
             (add_directive ''note'' (host_cls ''Note'' 0 0 True [''class'']) None (Some False)
                empty_registry) ''note'' = Some c
        \<and> parse_option (option_spec c) (''unknown-opt'', Some ''value'')
             = Inr (''unknown-opt'', Opaque_text (Some ''value''))
        \<and> call_run ((example_invocation Directive)
                      \<lparr>inv_cls := c, options := [(''unknown-opt'', Opaque_text (Some ''value''))]\<rparr>)
             = Returned [directive ((example_invocation Directive)
                      \<lparr>inv_cls := c, options := [(''unknown-opt'', Opaque_text (Some ''value''))]\<rparr>)]"
    using interceptor_relaxed_options
      [where attrs = None and nm = "''note''" and cls = "host_cls ''Note'' 0 0 True [''class'']"
         and raw_arg = "Some False" and st = empty_registry and key = "''unknown-opt''"
         and v = "Some ''value''" and self = "example_invocation Directive"]
    by blast
  show "parse_option (option_spec (host_cls ''Note'' 0 0 True [''class'']))
        (''unknown-opt'', Some ''value'') = Inl (KeyError ''unknown-opt'')"
    by (simp add: host_cls_def parse_option_def option_spec_getitem_def)
  from example_env_image obtain st' where
    r: "register example_env empty_registry = Inr st'"
    and ne: "directives_reg st' ''image'' \<noteq> directives_reg empty_registry ''image''"
    by blast
  from r have "\<forall>n. directives_reg st' n = directives_reg empty_registry n
         \<or> (\<exists>c. directives_reg st' n = Some c
              \<and> option_spec c = DummyOptionSpec
              \<and> parse_option (option_spec c) (''unknown-opt'', Some ''value'')
                   = Inr (''unknown-opt'', Opaque_text (Some ''value'')))"
    using interceptor_relaxed_options
      [where key = "''unknown-opt''" and v = "Some ''value''" and env = example_env
         and ?st0.0 = empty_registry and st' = st']
    by blast
  with ne r show "\<exists>st' c. register example_env empty_registry = Inr st'
        \<and> directives_reg st' ''image'' = Some c
        \<and> parse_option (option_spec c) (''unknown-opt'', Some ''value'')
             = Inr (''unknown-opt'', Opaque_text (Some ''value''))"
    by blast
qed

subsection \<open>Names and classification\<close>

lemma non_raw_no_colon: "n \<in> non_raw_directives \<Longrightarrow> CHR '':'' \<notin> set n"
  by (auto simp: non_raw_directives_def)

lemma optional_names:
  "fst ` set optional_directives =
     {''blockdiag'', ''packetdiag'', ''rackdiag'', ''seqdiag'', ''wavedrom'',
      ''doxygenstruct'', ''doxygenfunction''}"
  by (simp add: optional_directives_def)

lemma later_reg_raw:
  assumes "later_reg env n r" and "n \<noteq> ''glossary''" and "n \<noteq> ''code-tab''"
    and "n \<notin> autodoc_names env"
  shows "(case r of None \<Rightarrow> True | Some b \<Rightarrow> b) = (n \<notin> non_raw_directives)"
proof -
  from assms(1) have
    "(n = ''glossary'' \<and> r = Some False)
     \<or> (n \<in> {''literalinclude'', ''toctree'', ''versionadded'', ''only'', ''highlight'', ''todo''}
          \<and> r = None)
     \<or> (n \<in> autodoc_names env \<and> r = Some False)
     \<or> (n \<in> {''tabs'', ''tab'', ''group-tab''} \<and> r = Some False)
     \<or> (n \<in> {''code-tab'', ''click'', ''argparse'', ''include-build-file'', ''list''} \<and> r = None)
     \<or> (n \<in> {''blockdiag'', ''packetdiag'', ''rackdiag'', ''seqdiag'', ''wavedrom'',
      ''doxygenstruct'', ''doxygenfunction''} \<and> r = None)"
    unfolding later_reg_def optional_names .
  then consider
      (lit) "n \<in> {''literalinclude'', ''toctree'', ''versionadded'', ''only'', ''highlight'', ''todo''}" "r = None"
    | (tabs) "n \<in> {''tabs'', ''tab'', ''group-tab''}" "r = Some False"
    | (opt) "n \<in> {''click'', ''argparse'', ''include-build-file'', ''list''}" "r = None"
    | (diag) "n \<in> {''blockdiag'', ''packetdiag'', ''rackdiag'', ''seqdiag'', ''wavedrom'',
      ''doxygenstruct'', ''doxygenfunction''}" "r = None"
    using assms(2,3,4) by (elim disjE conjE) simp_all
  then show ?thesis
  proof cases
    case lit
    then show ?thesis by (elim insertE emptyE) (simp_all add: non_raw_directives_def)
  next
    case tabs
    then show ?thesis by (elim insertE emptyE) (simp_all add: non_raw_directives_def)
  next
    case opt
    then show ?thesis by (elim insertE emptyE) (simp_all add: non_raw_directives_def)
  next
    case diag
    then show ?thesis by (elim insertE emptyE) (simp_all add: non_raw_directives_def)
  qed
qed

lemma later_reg_colon:
  assumes "later_reg env n r" and "CHR '':'' \<in> set n" and "n \<notin> autodoc_names env"
  shows "r = None"
proof -
  have "n \<noteq> ''glossary''" using assms(2) by auto
  moreover have "n \<noteq> ''tabs''" "n \<noteq> ''tab''" "n \<noteq> ''group-tab''" using assms(2) by auto
  ultimately show ?thesis
    using assms(1,3) unfolding later_reg_def by (elim disjE conjE) simp_all
qed

lemma later_reg_not_role: "later_reg env n r \<Longrightarrow> n \<noteq> ''role''"
  by (auto simp: later_reg_def optional_directives_def autodoc_names_def)

lemma note_not_autodoc: "''note'' \<notin> autodoc_names env"
  by (auto simp: autodoc_names_def)

lemma raw_interceptor_cls_None: "raw (interceptor_cls c None r) = Some (case r of None \<Rightarrow> True | Some b \<Rightarrow> b)"
  by (rule raw_interceptor_cls) (simp add: attrs_get_def)

lemma role_cls_eq:
  "interceptor_cls Directive (Some [''required_arguments'' \<mapsto> V_int 1]) None =
     \<lparr> cls_name = ''rstfmt_Directive'', required_arguments = 1, optional_arguments = 0,
       final_argument_whitespace = False, has_content = False,
       option_spec = DummyOptionSpec, run = Run_passthrough, raw = Some True \<rparr>"
  by (simp add: interceptor_cls_def type_new_def Directive_def)

subsection \<open>The loop over the base grammar\<close>

lemma base_grammar_establishes:
  assumes "register_base_grammar env reg st = Inr st'"
    and "nm \<notin> exclude_directives"
    and "nm \<in> fst ` set reg
         \<or> (\<exists>c. directives_reg st nm = Some c \<and> passthrough_cls c
                \<and> raw c = Some (nm \<notin> non_raw_directives))"
  shows "\<exists>c. directives_reg st' nm = Some c \<and> passthrough_cls c
                \<and> raw c = Some (nm \<notin> non_raw_directives)"
  using assms
proof (induction reg arbitrary: st)
  case Nil
  then show ?case by simp
next
  case (Cons item reg)
  obtain n module cls_nm where item: "item = (n, module, cls_nm)"
    by (cases item) auto
  show ?case
  proof (cases "n \<in> exclude_directives")
    case True
    then have run: "register_base_grammar env reg st = Inr st'"
      using Cons.prems(1) item by simp
    from True Cons.prems(2) have "n \<noteq> nm" by auto
    then have "nm \<in> fst ` set reg
         \<or> (\<exists>c. directives_reg st nm = Some c \<and> passthrough_cls c
                \<and> raw c = Some (nm \<notin> non_raw_directives))"
      using Cons.prems(3) item by auto
    with run Cons.prems(2) show ?thesis by (rule Cons.IH)
  next
    case False
    then obtain cls where
      run: "register_base_grammar env reg
               (add_directive n cls None (Some (n \<notin> non_raw_directives)) st) = Inr st'"
      using Cons.prems(1) item
      by (auto simp: bind_err_Inr split: option.splits)
    have "nm \<in> fst ` set reg
         \<or> (\<exists>c. directives_reg (add_directive n cls None (Some (n \<notin> non_raw_directives)) st) nm = Some c
                \<and> passthrough_cls c \<and> raw c = Some (nm \<notin> non_raw_directives))"
    proof (cases "n = nm")
      case True
      then show ?thesis
        by (simp add: directives_reg_add_directive passthrough_interceptor_cls
              raw_interceptor_cls_None)
    next
      case False
      then show ?thesis
        using Cons.prems(3) item by (auto simp: directives_reg_add_directive)
    qed
    with run Cons.prems(2) show ?thesis by (rule Cons.IH)
  qed
qed

lemma register_base_raw:
  assumes reg: "register env st0 = Inr st'"
    and mem: "nm \<in> fst ` set (directive_registry env)"
    and excl: "nm \<notin> exclude_directives"
    and fixed: "nm \<notin> {''glossary'', ''code-tab''}"
    and auto_names: "nm \<notin> autodoc_names env"
  shows "\<exists>c. directives_reg st' nm = Some c \<and> passthrough_cls c
                \<and> raw c = Some (nm \<notin> non_raw_directives)"
proof -
  let ?P = "\<lambda>c. passthrough_cls c \<and> raw c = Some (nm \<notin> non_raw_directives)"
  let ?Q = "\<lambda>n c. n = nm \<longrightarrow> ?P c"
  from reg obtain st1 where
    base: "register_base_grammar env (directive_registry env)
       (register_role_directive
          (register_default_domain env (register_domains env (register_roles st0)))) = Inr st1"
    and later: "bind_err (register_sphinx_tabs env (register_autodoc env (register_sphinx env st1)))
       (\<lambda>st2. bind_err (register_sphinx_click env st2)
       (\<lambda>st3. bind_err (register_sphinxarg env st3)
       (\<lambda>st4. Inr (register_optional_directives env (register_esp_docs env st4))))) = Inr st'"
    by (rule register_later)
  from base excl mem obtain c where c: "directives_reg st1 nm = Some c" and "?P c"
    using base_grammar_establishes by blast
  have "dir_upd ?Q st1 st'"
  proof (rule dir_upd_later [OF _ later])
    fix n c r assume "later_reg env n r"
    then show "?Q n (interceptor_cls c None r)"
      using later_reg_raw [of env n r] fixed auto_names
      by (auto simp: passthrough_interceptor_cls raw_interceptor_cls_None)
  qed
  then show ?thesis
    using c \<open>?P c\<close> by (rule dir_upd_keeps) simp
qed

text \<open>
  C4. The loop over the registry of the base grammar registers, under every name of the
  registry that is not excluded, a passthrough class whose \<open>raw\<close> flag is false exactly
  when the name is in the non-raw classification set. That entry is the one in the
  registry when \<^verbatim>\<open>register\<close> returns, for every name that no later block registers
  again with another flag (\<^verbatim>\<open>glossary\<close>, \<^verbatim>\<open>code-tab\<close> and the names of the documenter
  loop); \<^verbatim>\<open>note\<close>, when the base grammar has it, carries \<open>raw = False\<close>.
\<close>

theorem base_grammar_raw_classification:
  "(register_base_grammar env reg st = Inr st1 \<longrightarrow>
      nm \<in> fst ` set reg \<longrightarrow> nm \<notin> exclude_directives \<longrightarrow>
      (\<exists>c. directives_reg st1 nm = Some c \<and> passthrough_cls c
           \<and> raw c = Some (nm \<notin> non_raw_directives)))
   \<and> (register env st0 = Inr st' \<longrightarrow>
      nm \<in> fst ` set (directive_registry env) \<longrightarrow> nm \<notin> exclude_directives \<longrightarrow>
      nm \<notin> {''glossary'', ''code-tab''} \<longrightarrow> nm \<notin> autodoc_names env \<longrightarrow>
      (\<exists>c. directives_reg st' nm = Some c \<and> passthrough_cls c
           \<and> raw c = Some (nm \<notin> non_raw_directives)))
   \<and> (register env st0 = Inr st' \<longrightarrow> ''note'' \<in> fst ` set (directive_registry env) \<longrightarrow>
      (\<exists>c. directives_reg st' ''note'' = Some c \<and> passthrough_cls c \<and> raw c = Some False))"
proof (intro conjI impI)
  assume "register_base_grammar env reg st = Inr st1" and "nm \<in> fst ` set reg"
    and "nm \<notin> exclude_directives"
  then show "\<exists>c. directives_reg st1 nm = Some c \<and> passthrough_cls c
           \<and> raw c = Some (nm \<notin> non_raw_directives)"
    using base_grammar_establishes by blast
next
  assume "register env st0 = Inr st'" and "nm \<in> fst ` set (directive_registry env)"
    and "nm \<notin> exclude_directives" and "nm \<notin> {''glossary'', ''code-tab''}"
    and "nm \<notin> autodoc_names env"
  then show "\<exists>c. directives_reg st' nm = Some c \<and> passthrough_cls c
           \<and> raw c = Some (nm \<notin> non_raw_directives)"
    by (rule register_base_raw)
next
  assume r: "register env st0 = Inr st'"
    and m: "''note'' \<in> fst ` set (directive_registry env)"
  have "''note'' \<notin> exclude_directives" by (simp add: exclude_directives_def)
  moreover have "''note'' \<notin> {''glossary'', ''code-tab''}" by simp
  moreover have "''note'' \<in> non_raw_directives" by (simp add: non_raw_directives_def)
  ultimately show "\<exists>c. directives_reg st' ''note'' = Some c \<and> passthrough_cls c
      \<and> raw c = Some False"
    using register_base_raw [OF r m _ _ note_not_autodoc] by simp
qed

lemma example_env_base:
  "\<exists>st1. register_base_grammar example_env (directive_registry example_env) empty_registry = Inr st1"
  by (simp add: register_defs example_defs)

lemma example_env_returns: "\<exists>st'. register example_env empty_registry = Inr st'"
  by (simp add: register_defs example_defs)

theorem base_grammar_raw_classification_witness:
  "(\<exists>st1. register_base_grammar example_env (directive_registry example_env) empty_registry = Inr st1
       \<and> ''image'' \<in> fst ` set (directive_registry example_env)
       \<and> ''image'' \<notin> exclude_directives
       \<and> (\<exists>c. directives_reg st1 ''image'' = Some c \<and> raw c = Some True))
   \<and> (\<exists>st'. register example_env empty_registry = Inr st'
       \<and> ''note'' \<in> fst ` set (directive_registry example_env)
       \<and> ''note'' \<notin> exclude_directives
       \<and> ''note'' \<notin> {''glossary'', ''code-tab''}
       \<and> ''note'' \<notin> autodoc_names example_env
       \<and> (\<exists>c. directives_reg st' ''note'' = Some c \<and> passthrough_cls c \<and> raw c = Some False))"
proof (intro conjI)
  have image: "''image'' \<in> fst ` set (directive_registry example_env)"
    and nt: "''note'' \<in> fst ` set (directive_registry example_env)"
    by (simp_all add: example_env_def)
  have excl: "''image'' \<notin> exclude_directives" "''note'' \<notin> exclude_directives"
    by (simp_all add: exclude_directives_def)
  have cls: "''image'' \<notin> non_raw_directives" "''note'' \<in> non_raw_directives"
    by (simp_all add: non_raw_directives_def)
  have fixed: "''note'' \<notin> {''glossary'', ''code-tab''}" by simp
  have auto_names: "''note'' \<notin> autodoc_names example_env" by (rule note_not_autodoc)
  from example_env_base obtain st1 where
    b: "register_base_grammar example_env (directive_registry example_env) empty_registry = Inr st1"
    by blast
  then have "\<exists>c. directives_reg st1 ''image'' = Some c \<and> passthrough_cls c
           \<and> raw c = Some (''image'' \<notin> non_raw_directives)"
    using base_grammar_raw_classification
      [where env = example_env and reg = "directive_registry example_env"
         and st = empty_registry and ?st1.0 = st1 and nm = "''image''"]
      image excl(1) by blast
  with b image excl(1) cls(1)
  show "\<exists>st1. register_base_grammar example_env (directive_registry example_env) empty_registry = Inr st1
       \<and> ''image'' \<in> fst ` set (directive_registry example_env)
       \<and> ''image'' \<notin> exclude_directives
       \<and> (\<exists>c. directives_reg st1 ''image'' = Some c \<and> raw c = Some True)"
    by auto
  from example_env_returns obtain st' where
    r: "register example_env empty_registry = Inr st'" by blast
  then have "\<exists>c. directives_reg st' ''note'' = Some c \<and> passthrough_cls c
           \<and> raw c = Some (''note'' \<notin> non_raw_directives)"
    using base_grammar_raw_classification
      [where env = example_env and ?st0.0 = empty_registry and st' = st' and nm = "''note''"]
      nt excl(2) fixed auto_names by blast
  with r nt excl(2) fixed auto_names cls(2)
  show "\<exists>st'. register example_env empty_registry = Inr st'
       \<and> ''note'' \<in> fst ` set (directive_registry example_env)
       \<and> ''note'' \<notin> exclude_directives
       \<and> ''note'' \<notin> {''glossary'', ''code-tab''}
       \<and> ''note'' \<notin> autodoc_names example_env
       \<and> (\<exists>c. directives_reg st' ''note'' = Some c \<and> passthrough_cls c \<and> raw c = Some False)"
    by auto
qed

subsection \<open>The role directive\<close>

lemma dir_upd_unchanged:
  assumes "dir_upd Q st st'" and "\<And>c. \<not> Q n c"
  shows "directives_reg st' n = directives_reg st n"
proof -
  from assms(1) have "directives_reg st' n = directives_reg st n
      \<or> (\<exists>c. directives_reg st' n = Some c \<and> Q n c)"
    by (simp add: dir_upd_def)
  with assms(2) show ?thesis by auto
qed

lemma register_role_entry:
  assumes "register env st0 = Inr st'"
  shows "directives_reg st' ''role'' =
           Some (interceptor_cls Directive (Some [''required_arguments'' \<mapsto> V_int 1]) None)"
proof -
  let ?Q = "\<lambda>(n::string) (c::directive_cls). n \<noteq> ''role''"
  let ?s0 = "register_default_domain env (register_domains env (register_roles st0))"
  from assms obtain st1 where
    base: "register_base_grammar env (directive_registry env) (register_role_directive ?s0) = Inr st1"
    and later: "bind_err (register_sphinx_tabs env (register_autodoc env (register_sphinx env st1)))
       (\<lambda>st2. bind_err (register_sphinx_click env st2)
       (\<lambda>st3. bind_err (register_sphinxarg env st3)
       (\<lambda>st4. Inr (register_optional_directives env (register_esp_docs env st4))))) = Inr st'"
    by (rule register_later)
  have "dir_upd ?Q (register_role_directive ?s0) st1"
    by (rule dir_upd_register_base_grammar [OF _ base]) (simp add: exclude_directives_def)
  moreover have "dir_upd ?Q st1 st'"
    by (rule dir_upd_later [OF _ later]) (rule later_reg_not_role)
  ultimately have "dir_upd ?Q (register_role_directive ?s0) st'"
    by (rule dir_upd_trans)
  then have "directives_reg st' ''role'' = directives_reg (register_role_directive ?s0) ''role''"
    by (rule dir_upd_unchanged) simp
  then show ?thesis
    by (simp add: register_role_directive_def directives_reg_add_directive)
qed

text \<open>
  C8, as the code has it. The loop over the base grammar skips \<^verbatim>\<open>role\<close>. What
  \<^verbatim>\<open>register\<close> leaves under \<^verbatim>\<open>role\<close> is the class that the generic interceptor
  \<^verbatim>\<open>_add_directive\<close> makes of the base class \<^verbatim>\<open>Directive\<close> with one attribute replaced,
  \<^verbatim>\<open>required_arguments = 1\<close>: it takes one argument and no content, has the relaxed
  option schema and the passthrough \<^verbatim>\<open>run\<close> of every other registered directive, and
  \<open>raw = True\<close>.
\<close>

theorem role_directive_registration:
  "register_base_grammar env ((''role'', module, cls_nm) # rest) st
     = register_base_grammar env rest st
   \<and> (register env st0 = Inr st' \<longrightarrow>
        directives_reg st' ''role'' =
          Some (interceptor_cls Directive (Some [''required_arguments'' \<mapsto> V_int 1]) None))
   \<and> interceptor_cls Directive (Some [''required_arguments'' \<mapsto> V_int 1]) None =
       \<lparr> cls_name = ''rstfmt_Directive'', required_arguments = 1, optional_arguments = 0,
         final_argument_whitespace = False, has_content = False,
         option_spec = DummyOptionSpec, run = Run_passthrough, raw = Some True \<rparr>"
  using register_role_entry role_cls_eq by (simp add: exclude_directives_def)

theorem role_directive_registration_witness:
  "\<exists>st'. register example_env empty_registry = Inr st'
     \<and> directives_reg st' ''role'' =
         Some \<lparr> cls_name = ''rstfmt_Directive'', required_arguments = 1, optional_arguments = 0,
                final_argument_whitespace = False, has_content = False,
                option_spec = DummyOptionSpec, run = Run_passthrough, raw = Some True \<rparr>"
proof -
  from example_env_returns obtain st' where
    r: "register example_env empty_registry = Inr st'" by blast
  then show ?thesis
    using role_directive_registration
      [where env = example_env and ?st0.0 = empty_registry and st' = st']
    by auto
qed

text \<open>
  C8, as the claim has it, fails on the example host: the class under \<^verbatim>\<open>role\<close> has no
  logic of its own. Its \<^verbatim>\<open>run\<close> and its option schema are those of \<^verbatim>\<open>image\<close>, which
  the generic loop registered, and it takes no content from which an argument could be
  parsed.
\<close>

theorem role_directive_bespoke_counterexample:
  "registered_directive (register example_env empty_registry) ''role'' =
     Some \<lparr> cls_name = ''rstfmt_Directive'', required_arguments = 1, optional_arguments = 0,
            final_argument_whitespace = False, has_content = False,
            option_spec = DummyOptionSpec, run = Run_passthrough, raw = Some True \<rparr>
   \<and> map_option run (registered_directive (register example_env empty_registry) ''role'')
       = map_option run (registered_directive (register example_env empty_registry) ''image'')
   \<and> map_option option_spec (registered_directive (register example_env empty_registry) ''role'')
       = map_option option_spec (registered_directive (register example_env empty_registry) ''image'')"
  by (simp add: registered_directive_def register_defs example_defs)

subsection \<open>The loop over the domains\<close>

lemma register_domain_establishes:
  assumes G: "\<And>c. G (interceptor_cls c None None)"
    and mem: "(nm, cls) \<in> set (dom_directives d)"
  shows "\<exists>c. directives_reg (register_domain d s) (dom_name d @ '':'' @ nm) = Some c \<and> G c"
  unfolding register_domain_def
proof (rule fold_establishes [where x = "(nm, cls)"])
  show "(nm, cls) \<in> set (dom_directives d)" by (rule mem)
next
  fix s' :: registry
  show "\<exists>c. directives_reg (register_domain_directive (dom_name d) (nm, cls) s')
              (dom_name d @ '':'' @ nm) = Some c \<and> G c"
    by (simp add: register_domain_directive_def directives_reg_add_directive G)
next
  fix y and s' :: registry
  assume "\<exists>c. directives_reg s' (dom_name d @ '':'' @ nm) = Some c \<and> G c"
  then show "\<exists>c. directives_reg (register_domain_directive (dom_name d) y s')
              (dom_name d @ '':'' @ nm) = Some c \<and> G c"
    by (cases y) (simp add: register_domain_directive_def directives_reg_add_directive G)
qed

lemma register_domain_preserves:
  assumes G: "\<And>c. G (interceptor_cls c None None)"
    and "\<exists>c. directives_reg s key = Some c \<and> G c"
  shows "\<exists>c. directives_reg (register_domain d s) key = Some c \<and> G c"
proof -
  from assms(2) obtain c where c: "directives_reg s key = Some c" and "G c" by blast
  have "dir_upd (\<lambda>n c. G c) s (register_domain d s)"
    by (rule dir_upd_register_domain) (rule G)
  then show ?thesis using c \<open>G c\<close> by (rule dir_upd_keeps)
qed

lemma register_domains_establishes:
  assumes G: "\<And>c. G (interceptor_cls c None None)"
    and d: "d \<in> set (subclasses (Domain_hier env))"
    and mem: "(nm, cls) \<in> set (dom_directives d)"
  shows "\<exists>c. directives_reg (register_domains env st) (dom_name d @ '':'' @ nm) = Some c \<and> G c"
  unfolding register_domains_def
proof (rule fold_establishes [where x = d])
  show "d \<in> set (subclasses (Domain_hier env))" by (rule d)
next
  fix s :: registry
  show "\<exists>c. directives_reg (register_domain d s) (dom_name d @ '':'' @ nm) = Some c \<and> G c"
    using G mem by (rule register_domain_establishes)
next
  fix y and s :: registry
  assume "\<exists>c. directives_reg s (dom_name d @ '':'' @ nm) = Some c \<and> G c"
  with G show "\<exists>c. directives_reg (register_domain y s) (dom_name d @ '':'' @ nm) = Some c \<and> G c"
    by (rule register_domain_preserves)
qed

text \<open>Everything that runs after the loop over the domains, as one step.\<close>

lemma dir_upd_after_domains:
  assumes py: "\<And>nm c. (nm, c) \<in> set (PythonDomain_directives env) \<Longrightarrow>
                 Q nm (interceptor_cls c None None)"
    and rl: "Q ''role'' (interceptor_cls Directive (Some [''required_arguments'' \<mapsto> V_int 1]) None)"
    and bg: "\<And>n c. n \<in> fst ` set (directive_registry env) \<Longrightarrow> n \<notin> exclude_directives \<Longrightarrow>
                 Q n (interceptor_cls c None (Some (n \<notin> non_raw_directives)))"
    and lt: "\<And>n c r. later_reg env n r \<Longrightarrow> Q n (interceptor_cls c None r)"
    and reg: "register env st = Inr st'"
  shows "dir_upd Q (register_domains env (register_roles st)) st'"
proof -
  let ?s = "register_domains env (register_roles st)"
  from reg obtain st1 where
    base: "register_base_grammar env (directive_registry env)
       (register_role_directive (register_default_domain env ?s)) = Inr st1"
    and later: "bind_err (register_sphinx_tabs env (register_autodoc env (register_sphinx env st1)))
       (\<lambda>st2. bind_err (register_sphinx_click env st2)
       (\<lambda>st3. bind_err (register_sphinxarg env st3)
       (\<lambda>st4. Inr (register_optional_directives env (register_esp_docs env st4))))) = Inr st'"
    by (rule register_later)
  have "dir_upd Q ?s (register_default_domain env ?s)"
    using py by (rule dir_upd_register_default_domain)
  moreover have "dir_upd Q (register_default_domain env ?s)
      (register_role_directive (register_default_domain env ?s))"
    using rl by (rule dir_upd_register_role_directive)
  moreover have "dir_upd Q (register_role_directive (register_default_domain env ?s)) st1"
    using bg base by (rule dir_upd_register_base_grammar)
  moreover have "dir_upd Q st1 st'"
    using lt later by (rule dir_upd_later)
  ultimately show ?thesis
    using dir_upd_trans by blast
qed

lemma register_domain_directive_raw:
  assumes reg: "register env st0 = Inr st'"
    and d: "d \<in> set (subclasses (Domain_hier env))"
    and mem: "(nm, cls) \<in> set (dom_directives d)"
    and auto_names: "dom_name d @ '':'' @ nm \<notin> autodoc_names env"
  shows "\<exists>c. directives_reg st' (dom_name d @ '':'' @ nm) = Some c \<and> raw c = Some True"
proof -
  let ?key = "dom_name d @ '':'' @ nm"
  let ?Q = "\<lambda>n c. n = ?key \<longrightarrow> raw c = Some True"
  have colon: "CHR '':'' \<in> set ?key" by simp
  have "\<exists>c. directives_reg (register_domains env (register_roles st0)) ?key = Some c
           \<and> raw c = Some True"
    using d mem
    by (intro register_domains_establishes [where G = "\<lambda>c. raw c = Some True" and cls = cls])
       (simp_all add: raw_interceptor_cls_None)
  then obtain c where c: "directives_reg (register_domains env (register_roles st0)) ?key = Some c"
    and r: "raw c = Some True" by blast
  have "dir_upd ?Q (register_domains env (register_roles st0)) st'"
  proof (rule dir_upd_after_domains [OF _ _ _ _ reg])
    fix n c assume "(n, c) \<in> set (PythonDomain_directives env)"
    show "?Q n (interceptor_cls c None None)" by (simp add: raw_interceptor_cls_None)
  next
    have "raw (interceptor_cls Directive (Some [''required_arguments'' \<mapsto> V_int 1]) None)
            = Some True"
      by (subst role_cls_eq) simp
    then show "?Q ''role'' (interceptor_cls Directive (Some [''required_arguments'' \<mapsto> V_int 1]) None)"
      by blast
  next
    fix n c assume "n \<in> fst ` set (directive_registry env)"
    show "?Q n (interceptor_cls c None (Some (n \<notin> non_raw_directives)))"
      using non_raw_no_colon [of n] colon by (auto simp: raw_interceptor_cls_None)
  next
    fix n c r assume "later_reg env n r"
    then show "?Q n (interceptor_cls c None r)"
      using later_reg_colon [of env n r] colon auto_names
      by (auto simp: raw_interceptor_cls_None)
  qed
  then show ?thesis using c r by (rule dir_upd_keeps) simp
qed

subsection \<open>The default of the raw flag\<close>

text \<open>
  C9. A call of \<^verbatim>\<open>_add_directive\<close> that gives no \<^verbatim>\<open>raw\<close> argument (and no \<^verbatim>\<open>raw\<close>
  among its \<^verbatim>\<open>attrs\<close>) registers a class with \<open>raw = True\<close>. So does
  \<^verbatim>\<open>_add_optional_directive\<close> whenever it finds the class, and so does the loop over the
  domains for every domain-qualified directive. When \<^verbatim>\<open>register\<close> returns, the entry
  under a domain-qualified name still has \<open>raw = True\<close>, unless the name is one of the
  names of the loop over the documenters.
\<close>

theorem default_raw_true:
  "(attrs_get attrs ''raw'' = None \<longrightarrow>
      (\<exists>c. directives_reg (add_directive nm cls attrs None st) nm = Some c \<and> raw c = Some True))
   \<and> (import_module env importlib_name = Some m
        \<and> map_of (mod_classes m) directive_cls = Some found \<longrightarrow>
      (\<exists>c. directives_reg
              (add_optional_directive directive_name directive_cls importlib_name env st)
              directive_name = Some c
           \<and> raw c = Some True))
   \<and> (d \<in> set (subclasses (Domain_hier env)) \<and> (dnm, dcls) \<in> set (dom_directives d) \<longrightarrow>
      (\<exists>c. directives_reg (register_domains env st) (dom_name d @ '':'' @ dnm) = Some c
           \<and> raw c = Some True))
   \<and> (register env st0 = Inr st' \<and> d \<in> set (subclasses (Domain_hier env))
        \<and> (dnm, dcls) \<in> set (dom_directives d)
        \<and> dom_name d @ '':'' @ dnm \<notin> autodoc_names env \<longrightarrow>
      (\<exists>c. directives_reg st' (dom_name d @ '':'' @ dnm) = Some c \<and> raw c = Some True))"
proof (intro conjI impI)
  assume "attrs_get attrs ''raw'' = None"
  then show "\<exists>c. directives_reg (add_directive nm cls attrs None st) nm = Some c
      \<and> raw c = Some True"
    by (simp add: directives_reg_add_directive raw_interceptor_cls)
next
  assume "import_module env importlib_name = Some m
        \<and> map_of (mod_classes m) directive_cls = Some found"
  then show "\<exists>c. directives_reg
              (add_optional_directive directive_name directive_cls importlib_name env st)
              directive_name = Some c
           \<and> raw c = Some True"
    by (simp add: add_optional_directive_def directives_reg_add_directive raw_interceptor_cls_None)
next
  assume "d \<in> set (subclasses (Domain_hier env)) \<and> (dnm, dcls) \<in> set (dom_directives d)"
  then show "\<exists>c. directives_reg (register_domains env st) (dom_name d @ '':'' @ dnm) = Some c
           \<and> raw c = Some True"
    by (intro register_domains_establishes [where G = "\<lambda>c. raw c = Some True" and cls = dcls])
       (simp_all add: raw_interceptor_cls_None)
next
  assume "register env st0 = Inr st' \<and> d \<in> set (subclasses (Domain_hier env))
        \<and> (dnm, dcls) \<in> set (dom_directives d)
        \<and> dom_name d @ '':'' @ dnm \<notin> autodoc_names env"
  then show "\<exists>c. directives_reg st' (dom_name d @ '':'' @ dnm) = Some c \<and> raw c = Some True"
    using register_domain_directive_raw by blast
qed


lemma example_domains:
  "subclasses (Domain_hier example_env) = [c_domain, py_domain]"
  by (simp add: example_env_def)

theorem default_raw_true_witness:
  "attrs_get None ''raw'' = None
   \<and> (\<exists>c. directives_reg
             (add_directive ''click'' (host_cls ''ClickDirective'' 1 0 False []) None None
                empty_registry) ''click'' = Some c
        \<and> raw c = Some True)
   \<and> (\<exists>m found. import_module example_env ''sphinxcontrib.blockdiag'' = Some m
        \<and> map_of (mod_classes m) ''Blockdiag'' = Some found
        \<and> (\<exists>c. directives_reg
                  (add_optional_directive ''blockdiag'' ''Blockdiag'' ''sphinxcontrib.blockdiag''
                     example_env empty_registry) ''blockdiag'' = Some c
             \<and> raw c = Some True))
   \<and> c_domain \<in> set (subclasses (Domain_hier example_env))
   \<and> (''function'', host_cls ''CFunctionObject'' 1 0 True [''noindex'']) \<in> set (dom_directives c_domain)
   \<and> (\<exists>c. directives_reg (register_domains example_env empty_registry) ''c:function'' = Some c
        \<and> raw c = Some True)
   \<and> ''c:function'' \<notin> autodoc_names example_env
   \<and> (\<exists>st' c. register example_env empty_registry = Inr st'
        \<and> directives_reg st' ''c:function'' = Some c \<and> raw c = Some True)"
proof -
  have a: "attrs_get None ''raw'' = None" by (simp add: attrs_get_def)
  obtain m found where m: "import_module example_env ''sphinxcontrib.blockdiag'' = Some m"
    and f: "map_of (mod_classes m) ''Blockdiag'' = Some found"
    by (simp add: example_env_def example_modules_def)
  have d: "c_domain \<in> set (subclasses (Domain_hier example_env))"
    by (simp add: example_domains)
  have mem: "(''function'', host_cls ''CFunctionObject'' 1 0 True [''noindex''])
      \<in> set (dom_directives c_domain)"
    by (simp add: c_domain_def)
  have key: "dom_name c_domain @ '':'' @ ''function'' = ''c:function''"
    by (simp add: c_domain_def)
  have an: "''c:function'' \<notin> autodoc_names example_env"
    by (simp add: autodoc_names_def example_env_def)
  from example_env_returns obtain st' where
    r: "register example_env empty_registry = Inr st'" by blast
  note inst = default_raw_true
      [where attrs = None and nm = "''click''" and cls = "host_cls ''ClickDirective'' 1 0 False []"
         and st = empty_registry and env = example_env
         and importlib_name = "''sphinxcontrib.blockdiag''" and m = m
         and directive_cls = "''Blockdiag''" and found = found
         and directive_name = "''blockdiag''" and d = c_domain and dnm = "''function''"
         and dcls = "host_cls ''CFunctionObject'' 1 0 True [''noindex'']"
         and ?st0.0 = empty_registry and st' = st']
  from inst a have 1: "\<exists>c. directives_reg
             (add_directive ''click'' (host_cls ''ClickDirective'' 1 0 False []) None None
                empty_registry) ''click'' = Some c
        \<and> raw c = Some True" by blast
  from inst m f have 2: "\<exists>c. directives_reg
                  (add_optional_directive ''blockdiag'' ''Blockdiag'' ''sphinxcontrib.blockdiag''
                     example_env empty_registry) ''blockdiag'' = Some c
             \<and> raw c = Some True" by blast
  from inst d mem have 3: "\<exists>c. directives_reg (register_domains example_env empty_registry)
        (dom_name c_domain @ '':'' @ ''function'') = Some c \<and> raw c = Some True" by blast
  from inst r d mem an have 4: "\<exists>c. directives_reg st'
        (dom_name c_domain @ '':'' @ ''function'') = Some c \<and> raw c = Some True"
    unfolding key by blast
  from a 1 2 m f d mem 3 an 4 r show ?thesis
    unfolding key by blast
qed

subsection \<open>Changes to the role registry\<close>

lemma role_upd_refl: "role_upd st st"
  by (simp add: role_upd_def)

lemma role_upd_same: "role_registry st' = role_registry st \<Longrightarrow> role_upd st st'"
  by (simp add: role_upd_def)

lemma role_upd_trans:
  assumes "role_upd st st1" and "role_upd st1 st2"
  shows "role_upd st st2"
  unfolding role_upd_def
proof
  fix n
  from assms(1) have "role_registry st1 n = role_registry st n
      \<or> role_registry st1 n = Some ReferenceRole_inst"
    by (simp add: role_upd_def)
  moreover from assms(2) have "role_registry st2 n = role_registry st1 n
      \<or> role_registry st2 n = Some ReferenceRole_inst"
    by (simp add: role_upd_def)
  ultimately show "role_registry st2 n = role_registry st n
      \<or> role_registry st2 n = Some ReferenceRole_inst"
    by auto
qed

lemma role_upd_keeps:
  assumes "role_upd st st'" and "role_registry st n = Some ReferenceRole_inst"
  shows "role_registry st' n = Some ReferenceRole_inst"
proof -
  from assms(1) have "role_registry st' n = role_registry st n
      \<or> role_registry st' n = Some ReferenceRole_inst"
    by (simp add: role_upd_def)
  with assms(2) show ?thesis by auto
qed

lemma role_upd_fold:
  assumes "\<And>x s. x \<in> set xs \<Longrightarrow> role_upd s (f x s)"
  shows "role_upd st (fold f xs st)"
proof (rule fold_preserves [where P = "role_upd st"])
  show "role_upd st st" by (rule role_upd_refl)
next
  fix x s assume "x \<in> set xs" and "role_upd st s"
  then show "role_upd st (f x s)" using assms role_upd_trans by blast
qed

lemma role_registry_fold:
  fixes f :: "'a \<Rightarrow> registry \<Rightarrow> registry"
  assumes "\<And>x s. x \<in> set xs \<Longrightarrow> role_registry (f x s) = role_registry s"
  shows "role_registry (fold f xs st) = role_registry st"
proof (rule fold_preserves [where P = "\<lambda>s. role_registry s = role_registry st"])
  show "role_registry st = role_registry st" by simp
next
  fix x and s :: registry assume "x \<in> set xs" and "role_registry s = role_registry st"
  then show "role_registry (f x s) = role_registry st" using assms by simp
qed

lemma role_upd_register_reference:
  "role_upd s (register_canonical_role n ReferenceRole_inst s)"
  by (simp add: role_upd_def role_registry_register_canonical_role)

lemma role_upd_register_domain_role: "role_upd s (register_domain_role dn item s)"
proof (cases item)
  case (Pair nm rc)
  show ?thesis
    by (simp add: Pair register_domain_role_def role_upd_def role_registry_register_canonical_role)
qed

lemma role_registry_register_domain_directive:
  "role_registry (register_domain_directive dn item s) = role_registry s"
  by (cases item) (simp add: register_domain_directive_def role_registry_add_directive)

lemma role_registry_directive_fold:
  "role_registry (fold (register_domain_directive dn) xs s) = role_registry s"
  by (rule role_registry_fold) (rule role_registry_register_domain_directive)

lemma role_upd_register_domain: "role_upd s (register_domain d s)"
proof -
  have "role_upd s (fold (register_domain_role (dom_name d)) (dom_roles d) s)"
    by (rule role_upd_fold) (rule role_upd_register_domain_role)
  then show ?thesis
    by (simp add: register_domain_def role_upd_def role_registry_directive_fold)
qed

lemma register_domain_role_establishes:
  assumes "isinstance_ReferenceRole rc"
  shows "role_registry (register_domain_role dn (nm, rc) s) nm = Some ReferenceRole_inst
     \<and> role_registry (register_domain_role dn (nm, rc) s) (dn @ '':'' @ nm) = Some ReferenceRole_inst"
  using assms by (simp add: register_domain_role_def role_registry_register_canonical_role)

lemma register_domain_roles_establish:
  assumes mem: "(nm, rc) \<in> set (dom_roles d)" and inst: "isinstance_ReferenceRole rc"
  shows "role_registry (register_domain d s) nm = Some ReferenceRole_inst
     \<and> role_registry (register_domain d s) (dom_name d @ '':'' @ nm) = Some ReferenceRole_inst"
proof -
  let ?P = "\<lambda>s. role_registry s nm = Some ReferenceRole_inst
     \<and> role_registry s (dom_name d @ '':'' @ nm) = Some ReferenceRole_inst"
  have "?P (fold (register_domain_role (dom_name d)) (dom_roles d) s)"
  proof (rule fold_establishes [where x = "(nm, rc)" and P = ?P])
    show "(nm, rc) \<in> set (dom_roles d)" by (rule mem)
  next
    fix s' :: registry
    show "?P (register_domain_role (dom_name d) (nm, rc) s')"
      using inst by (rule register_domain_role_establishes)
  next
    fix y and s' :: registry
    assume "?P s'"
    then show "?P (register_domain_role (dom_name d) y s')"
      using role_upd_register_domain_role [of s' "dom_name d" y] role_upd_keeps by blast
  qed
  then show ?thesis
    by (simp add: register_domain_def role_registry_directive_fold)
qed

lemma register_domains_roles_establish:
  assumes d: "d \<in> set (subclasses (Domain_hier env))"
    and mem: "(nm, rc) \<in> set (dom_roles d)" and inst: "isinstance_ReferenceRole rc"
  shows "role_registry (register_domains env st) nm = Some ReferenceRole_inst
     \<and> role_registry (register_domains env st) (dom_name d @ '':'' @ nm) = Some ReferenceRole_inst"
  unfolding register_domains_def
proof (rule fold_establishes [where x = d])
  show "d \<in> set (subclasses (Domain_hier env))" by (rule d)
next
  fix s :: registry
  show "role_registry (register_domain d s) nm = Some ReferenceRole_inst
     \<and> role_registry (register_domain d s) (dom_name d @ '':'' @ nm) = Some ReferenceRole_inst"
    using mem inst by (rule register_domain_roles_establish)
next
  fix y and s :: registry
  assume "role_registry s nm = Some ReferenceRole_inst
     \<and> role_registry s (dom_name d @ '':'' @ nm) = Some ReferenceRole_inst"
  then show "role_registry (register_domain y s) nm = Some ReferenceRole_inst
     \<and> role_registry (register_domain y s) (dom_name d @ '':'' @ nm) = Some ReferenceRole_inst"
    using role_upd_register_domain [of s y] role_upd_keeps by blast
qed

subsection \<open>The blocks of register and the role registry\<close>

lemma role_registry_register_default_domain:
  "role_registry (register_default_domain env st) = role_registry st"
  unfolding register_default_domain_def
proof (rule role_registry_fold)
  fix x :: "string \<times> directive_cls" and s :: registry
  show "role_registry ((\<lambda>(nm, directive_cls). add_directive nm directive_cls None None) x s)
          = role_registry s"
    by (cases x) (simp add: role_registry_add_directive)
qed

lemma role_registry_register_role_directive:
  "role_registry (register_role_directive st) = role_registry st"
  by (simp add: register_role_directive_def role_registry_add_directive)

lemma role_registry_register_base_grammar:
  "register_base_grammar env reg st = Inr st' \<Longrightarrow> role_registry st' = role_registry st"
proof (induction reg arbitrary: st)
  case Nil
  then show ?case by simp
next
  case (Cons item reg)
  obtain n module cls_nm where item: "item = (n, module, cls_nm)"
    by (cases item) auto
  show ?case
  proof (cases "n \<in> exclude_directives")
    case True
    then show ?thesis using Cons item by simp
  next
    case False
    then obtain cls where
      "register_base_grammar env reg
         (add_directive n cls None (Some (n \<notin> non_raw_directives)) st) = Inr st'"
      using Cons.prems item by (auto simp: bind_err_Inr split: option.splits)
    then have "role_registry st' =
        role_registry (add_directive n cls None (Some (n \<notin> non_raw_directives)) st)"
      by (rule Cons.IH)
    then show ?thesis by (simp add: role_registry_add_directive)
  qed
qed

lemma role_registry_register_sphinx:
  "role_registry (register_sphinx env st) = role_registry st"
  by (simp add: register_sphinx_def role_registry_add_directive)

lemma role_registry_register_autodoc:
  "role_registry (register_autodoc env st) = role_registry st"
  unfolding register_autodoc_def
  by (rule role_registry_fold) (simp add: role_registry_add_directive)

lemma role_registry_register_sphinx_tabs:
  "register_sphinx_tabs env st = Inr st' \<Longrightarrow> role_registry st' = role_registry st"
  by (auto simp: register_sphinx_tabs_def bind_err_Inr role_registry_add_directive
           split: option.splits)

lemma role_registry_register_sphinx_click:
  "register_sphinx_click env st = Inr st' \<Longrightarrow> role_registry st' = role_registry st"
  by (auto simp: register_sphinx_click_def bind_err_Inr role_registry_add_directive
           split: option.splits)

lemma role_registry_register_sphinxarg:
  "register_sphinxarg env st = Inr st' \<Longrightarrow> role_registry st' = role_registry st"
  by (auto simp: register_sphinxarg_def bind_err_Inr role_registry_add_directive
           split: option.splits)

lemma role_upd_register_esp_docs: "role_upd st (register_esp_docs env st)"
proof -
  have "role_upd st (fold (\<lambda>r. register_canonical_role r ReferenceRole_inst) esp_roles st)"
    by (rule role_upd_fold) (rule role_upd_register_reference)
  then show ?thesis
    by (simp add: register_esp_docs_def role_upd_def role_registry_add_directive
             split: option.splits)
qed

lemma role_registry_add_optional_directive:
  "role_registry (add_optional_directive n cn m env st) = role_registry st"
  by (simp add: add_optional_directive_def role_registry_add_directive split: option.splits)

lemma role_registry_register_optional_directives:
  "role_registry (register_optional_directives env st) = role_registry st"
  unfolding register_optional_directives_def
proof (rule role_registry_fold)
  fix x :: "string \<times> string \<times> string" and s :: registry
  obtain n cn m where x: "x = (n, cn, m)" by (cases x) auto
  show "role_registry
          ((\<lambda>(directive_name, directive_cls, importlib_name).
               add_optional_directive directive_name directive_cls importlib_name env) x s)
        = role_registry s"
    by (simp add: x role_registry_add_optional_directive)
qed

lemma role_upd_after_domains:
  assumes "register env st = Inr st'"
  shows "role_upd (register_domains env (register_roles st)) st'"
proof -
  let ?s = "register_domains env (register_roles st)"
  from assms obtain st1 st2 st3 st4 where
    base: "register_base_grammar env (directive_registry env)
       (register_role_directive (register_default_domain env ?s)) = Inr st1"
    and tabs: "register_sphinx_tabs env (register_autodoc env (register_sphinx env st1)) = Inr st2"
    and click: "register_sphinx_click env st2 = Inr st3"
    and arg: "register_sphinxarg env st3 = Inr st4"
    and fin: "st' = register_optional_directives env (register_esp_docs env st4)"
    by (rule register_steps)
  have "role_registry st1 = role_registry ?s"
    using role_registry_register_base_grammar [OF base]
    by (simp add: role_registry_register_role_directive role_registry_register_default_domain)
  moreover have "role_registry st2 = role_registry st1"
    using role_registry_register_sphinx_tabs [OF tabs]
    by (simp add: role_registry_register_autodoc role_registry_register_sphinx)
  moreover have "role_registry st3 = role_registry st2"
    using click by (rule role_registry_register_sphinx_click)
  moreover have "role_registry st4 = role_registry st3"
    using arg by (rule role_registry_register_sphinxarg)
  ultimately have "role_registry st4 = role_registry ?s" by simp
  then have "role_upd ?s st4" by (rule role_upd_same)
  moreover have "role_upd st4 (register_esp_docs env st4)"
    by (rule role_upd_register_esp_docs)
  moreover have "role_upd (register_esp_docs env st4) st'"
    unfolding fin by (rule role_upd_same) (rule role_registry_register_optional_directives)
  ultimately show ?thesis using role_upd_trans by blast
qed

lemma register_reference_roles:
  assumes "register env st0 = Inr st'"
    and "d \<in> set (subclasses (Domain_hier env))"
    and "(nm, rc) \<in> set (dom_roles d)" and "isinstance_ReferenceRole rc"
  shows "role_registry st' nm = Some ReferenceRole_inst
     \<and> role_registry st' (dom_name d @ '':'' @ nm) = Some ReferenceRole_inst"
  using register_domains_roles_establish [OF assms(2,3,4)]
    role_upd_after_domains [OF assms(1)] role_upd_keeps
  by blast


subsection \<open>The roles and directives of the domains\<close>

text \<open>
  C7. When \<^verbatim>\<open>register\<close> returns, every role of every domain that the walker yields
  whose callable is an instance of the reference-resolving role type is registered as
  an instance of the module's \<^verbatim>\<open>ReferenceRole\<close>, under the bare role name and under
  the name qualified with the domain.
\<close>

theorem reference_roles_registered:
  "register env st0 = Inr st' \<and> d \<in> set (subclasses (Domain_hier env))
     \<and> (nm, role_callable) \<in> set (dom_roles d)
     \<and> isinstance_ReferenceRole role_callable \<longrightarrow>
   role_registry st' nm = Some ReferenceRole_inst
     \<and> role_registry st' (dom_name d @ '':'' @ nm) = Some ReferenceRole_inst"
  using register_reference_roles by blast

theorem reference_roles_registered_witness:
  "\<exists>st'. register example_env empty_registry = Inr st'
     \<and> c_domain \<in> set (subclasses (Domain_hier example_env))
     \<and> (''func'', Host_role ''CXRefRole'' True) \<in> set (dom_roles c_domain)
     \<and> isinstance_ReferenceRole (Host_role ''CXRefRole'' True)
     \<and> role_registry st' ''func'' = Some ReferenceRole_inst
     \<and> role_registry st' ''c:func'' = Some ReferenceRole_inst"
proof -
  from example_env_returns obtain st' where
    r: "register example_env empty_registry = Inr st'" by blast
  have d: "c_domain \<in> set (subclasses (Domain_hier example_env))"
    by (simp add: example_domains)
  have mem: "(''func'', Host_role ''CXRefRole'' True) \<in> set (dom_roles c_domain)"
    by (simp add: c_domain_def)
  have inst: "isinstance_ReferenceRole (Host_role ''CXRefRole'' True)" by simp
  have key: "dom_name c_domain @ '':'' @ ''func'' = ''c:func''"
    by (simp add: c_domain_def)
  have "role_registry st' ''func'' = Some ReferenceRole_inst
     \<and> role_registry st' (dom_name c_domain @ '':'' @ ''func'') = Some ReferenceRole_inst"
    using reference_roles_registered
      [where env = example_env and ?st0.0 = empty_registry and st' = st' and d = c_domain
         and nm = "''func''" and role_callable = "Host_role ''CXRefRole'' True"]
      r d mem inst by blast
  with r d mem inst show ?thesis unfolding key by blast
qed

text \<open>
  C1, as the code has it. When \<^verbatim>\<open>register\<close> returns, every directive of every domain
  that the walker yields has a passthrough class under its domain-qualified name, and
  every role of such a domain whose callable is an instance of the reference-resolving
  role type is registered as a \<^verbatim>\<open>ReferenceRole\<close> under both of its names. For a role
  with any other callable the loop over the domains registers nothing.
\<close>

theorem cataloged_extensions_registered:
  "(register env st0 = Inr st' \<and> d \<in> set (subclasses (Domain_hier env))
      \<and> (dnm, dcls) \<in> set (dom_directives d) \<longrightarrow>
      (\<exists>c. directives_reg st' (dom_name d @ '':'' @ dnm) = Some c \<and> passthrough_cls c))
   \<and> (register env st0 = Inr st' \<and> d \<in> set (subclasses (Domain_hier env))
      \<and> (rnm, rc) \<in> set (dom_roles d) \<and> isinstance_ReferenceRole rc \<longrightarrow>
      role_registry st' rnm = Some ReferenceRole_inst
        \<and> role_registry st' (dom_name d @ '':'' @ rnm) = Some ReferenceRole_inst)
   \<and> (\<not> isinstance_ReferenceRole rc \<longrightarrow>
      register_domain_role (dom_name d) (rnm, rc) st = st)"
proof (intro conjI impI)
  assume a: "register env st0 = Inr st' \<and> d \<in> set (subclasses (Domain_hier env))
      \<and> (dnm, dcls) \<in> set (dom_directives d)"
  then have "\<exists>c. directives_reg (register_domains env (register_roles st0))
      (dom_name d @ '':'' @ dnm) = Some c \<and> passthrough_cls c"
    by (intro register_domains_establishes [where G = passthrough_cls and cls = dcls])
       (simp_all add: passthrough_interceptor_cls)
  then obtain c where
    c: "directives_reg (register_domains env (register_roles st0)) (dom_name d @ '':'' @ dnm) = Some c"
    and p: "passthrough_cls c" by blast
  have "dir_upd (\<lambda>n c. passthrough_cls c) (register_domains env (register_roles st0)) st'"
  proof (rule dir_upd_after_domains)
    show "register env st0 = Inr st'" using a by simp
  qed (rule passthrough_interceptor_cls passthrough_role_cls)+
  then show "\<exists>c. directives_reg st' (dom_name d @ '':'' @ dnm) = Some c \<and> passthrough_cls c"
    using c p by (rule dir_upd_keeps)
next
  assume "register env st0 = Inr st' \<and> d \<in> set (subclasses (Domain_hier env))
      \<and> (rnm, rc) \<in> set (dom_roles d) \<and> isinstance_ReferenceRole rc"
  then show "role_registry st' rnm = Some ReferenceRole_inst"
    and "role_registry st' (dom_name d @ '':'' @ rnm) = Some ReferenceRole_inst"
    using register_reference_roles by blast+
next
  assume "\<not> isinstance_ReferenceRole rc"
  then show "register_domain_role (dom_name d) (rnm, rc) st = st"
    by (simp add: register_domain_role_def)
qed

theorem cataloged_extensions_registered_witness:
  "\<exists>st'. register example_env empty_registry = Inr st'
     \<and> c_domain \<in> set (subclasses (Domain_hier example_env))
     \<and> (''function'', host_cls ''CFunctionObject'' 1 0 True [''noindex''])
          \<in> set (dom_directives c_domain)
     \<and> (\<exists>c. directives_reg st' ''c:function'' = Some c \<and> passthrough_cls c)
     \<and> (''func'', Host_role ''CXRefRole'' True) \<in> set (dom_roles c_domain)
     \<and> isinstance_ReferenceRole (Host_role ''CXRefRole'' True)
     \<and> role_registry st' ''func'' = Some ReferenceRole_inst
     \<and> role_registry st' ''c:func'' = Some ReferenceRole_inst
     \<and> \<not> isinstance_ReferenceRole (Host_role ''CExprRole'' False)
     \<and> register_domain_role ''c'' (''expr'', Host_role ''CExprRole'' False) empty_registry
          = empty_registry"
proof -
  from example_env_returns obtain st' where
    r: "register example_env empty_registry = Inr st'" by blast
  have d: "c_domain \<in> set (subclasses (Domain_hier example_env))"
    by (simp add: example_domains)
  have mem: "(''function'', host_cls ''CFunctionObject'' 1 0 True [''noindex''])
      \<in> set (dom_directives c_domain)"
    and rmem: "(''func'', Host_role ''CXRefRole'' True) \<in> set (dom_roles c_domain)"
    by (simp_all add: c_domain_def)
  have inst: "isinstance_ReferenceRole (Host_role ''CXRefRole'' True)"
    and ninst: "\<not> isinstance_ReferenceRole (Host_role ''CExprRole'' False)"
    by simp_all
  have k1: "dom_name c_domain @ '':'' @ ''function'' = ''c:function''"
    and k2: "dom_name c_domain @ '':'' @ ''func'' = ''c:func''"
    and k3: "dom_name c_domain = ''c''"
    by (simp_all add: c_domain_def)
  note inst1 = cataloged_extensions_registered
      [where env = example_env and ?st0.0 = empty_registry and st' = st' and d = c_domain
         and dnm = "''function''" and dcls = "host_cls ''CFunctionObject'' 1 0 True [''noindex'']"
         and rnm = "''func''" and rc = "Host_role ''CXRefRole'' True"]
  note inst2 = cataloged_extensions_registered
      [where d = c_domain and rnm = "''expr''" and rc = "Host_role ''CExprRole'' False"
         and st = empty_registry]
  from inst1 r d mem have "\<exists>c. directives_reg st' (dom_name c_domain @ '':'' @ ''function'') = Some c
      \<and> passthrough_cls c" by blast
  then have 1: "\<exists>c. directives_reg st' ''c:function'' = Some c \<and> passthrough_cls c"
    unfolding k1 .
  from inst1 r d rmem inst have "role_registry st' ''func'' = Some ReferenceRole_inst
        \<and> role_registry st' (dom_name c_domain @ '':'' @ ''func'') = Some ReferenceRole_inst"
    by blast
  then have 2: "role_registry st' ''func'' = Some ReferenceRole_inst
        \<and> role_registry st' ''c:func'' = Some ReferenceRole_inst"
    unfolding k2 .
  from inst2 ninst have "register_domain_role (dom_name c_domain)
      (''expr'', Host_role ''CExprRole'' False) empty_registry = empty_registry" by blast
  then have 3: "register_domain_role ''c''
      (''expr'', Host_role ''CExprRole'' False) empty_registry = empty_registry"
    unfolding k3 .
  from r d mem rmem inst ninst 1 2 3 show ?thesis
    by blast
qed

text \<open>
  C1, as the claim has it, fails on the example host: the role \<^verbatim>\<open>expr\<close> of the domain
  \<^verbatim>\<open>c\<close> has a callable that is not a reference-resolving role, \<^verbatim>\<open>register\<close> returns,
  and neither \<^verbatim>\<open>expr\<close> nor \<^verbatim>\<open>c:expr\<close> is in the role registry.
\<close>

theorem cataloged_roles_counterexample:
  "c_domain \<in> set (subclasses (Domain_hier example_env))
   \<and> (''expr'', Host_role ''CExprRole'' False) \<in> set (dom_roles c_domain)
   \<and> \<not> raised (register example_env empty_registry)
   \<and> registered_role (register example_env empty_registry) ''expr'' = None
   \<and> registered_role (register example_env empty_registry) ''c:expr'' = None"
proof (intro conjI)
  show "c_domain \<in> set (subclasses (Domain_hier example_env))"
    by (simp add: example_domains)
  show "(''expr'', Host_role ''CExprRole'' False) \<in> set (dom_roles c_domain)"
    by (simp add: c_domain_def)
  show "\<not> raised (register example_env empty_registry)"
    by (simp add: raised_def register_defs example_defs)
  show "registered_role (register example_env empty_registry) ''expr'' = None"
    by (simp add: registered_role_def register_defs example_defs)
  show "registered_role (register example_env empty_registry) ''c:expr'' = None"
    by (simp add: registered_role_def register_defs example_defs)
qed

subsection \<open>The optional packages\<close>

lemma passthrough_keeps:
  assumes "dir_upd (\<lambda>n c. passthrough_cls c) st st'"
    and "\<exists>c. directives_reg st n = Some c \<and> passthrough_cls c"
  shows "\<exists>c. directives_reg st' n = Some c \<and> passthrough_cls c"
proof -
  from assms(2) obtain c where "directives_reg st n = Some c" and "passthrough_cls c" by blast
  with assms(1) show ?thesis by (rule dir_upd_keeps)
qed

lemma sphinx_tabs_entries:
  assumes "register_sphinx_tabs env st = Inr st'" and "import_module env ''sphinx_tabs.tabs'' \<noteq> None"
    and "n \<in> {''tabs'', ''tab'', ''group-tab'', ''code-tab''}"
  shows "\<exists>c. directives_reg st' n = Some c \<and> passthrough_cls c"
proof -
  from assms(1,2) obtain c1 c2 c3 c4 where
    st': "st' = add_directive ''code-tab'' c4 None None
            (add_directive ''group-tab'' c3 None (Some False)
              (add_directive ''tab'' c2 None (Some False)
                (add_directive ''tabs'' c1 None (Some False) st)))"
    by (auto simp: register_sphinx_tabs_def bind_err_Inr)
  from assms(3) show ?thesis
    unfolding st'
    by (elim insertE emptyE)
       (simp_all add: directives_reg_add_directive passthrough_interceptor_cls)
qed

lemma sphinx_click_entry:
  assumes "register_sphinx_click env st = Inr st'" and "import_module env ''sphinx_click'' \<noteq> None"
  shows "\<exists>c. directives_reg st' ''click'' = Some c \<and> passthrough_cls c"
proof -
  from assms obtain c where "st' = add_directive ''click'' c None None st"
    by (auto simp: register_sphinx_click_def bind_err_Inr)
  then show ?thesis
    by (simp add: directives_reg_add_directive passthrough_interceptor_cls)
qed

lemma sphinxarg_entry:
  assumes "register_sphinxarg env st = Inr st'" and "import_module env ''sphinxarg.ext'' \<noteq> None"
  shows "\<exists>c. directives_reg st' ''argparse'' = Some c \<and> passthrough_cls c"
proof -
  from assms obtain c where "st' = add_directive ''argparse'' c None None st"
    by (auto simp: register_sphinxarg_def bind_err_Inr)
  then show ?thesis
    by (simp add: directives_reg_add_directive passthrough_interceptor_cls)
qed

lemma esp_docs_entries:
  assumes "from_import env ''esp_docs.esp_extensions.include_build_file'' ''IncludeBuildFile'' = Some c1"
    and "from_import env ''esp_docs.generic_extensions.list_filter'' ''ListFilter'' = Some c2"
  shows "n \<in> {''include-build-file'', ''list''} \<Longrightarrow>
           \<exists>c. directives_reg (register_esp_docs env st) n = Some c \<and> passthrough_cls c"
    and "r \<in> set esp_roles \<Longrightarrow>
           role_registry (register_esp_docs env st) r = Some ReferenceRole_inst"
proof -
  have st': "register_esp_docs env st =
      add_directive ''list'' c2 None None
        (add_directive ''include-build-file'' c1 None None
          (fold (\<lambda>r. register_canonical_role r ReferenceRole_inst) esp_roles st))"
    using assms by (simp add: register_esp_docs_def)
  show "n \<in> {''include-build-file'', ''list''} \<Longrightarrow>
           \<exists>c. directives_reg (register_esp_docs env st) n = Some c \<and> passthrough_cls c"
    unfolding st'
    by (elim insertE emptyE)
       (simp_all add: directives_reg_add_directive passthrough_interceptor_cls)
  assume r: "r \<in> set esp_roles"
  have "role_registry (fold (\<lambda>r. register_canonical_role r ReferenceRole_inst) esp_roles st) r
          = Some ReferenceRole_inst"
  proof (rule fold_establishes [where x = r])
    show "r \<in> set esp_roles" by (rule r)
  next
    fix s :: registry
    show "role_registry (register_canonical_role r ReferenceRole_inst s) r = Some ReferenceRole_inst"
      by (simp add: role_registry_register_canonical_role)
  next
    fix y and s :: registry
    assume "role_registry s r = Some ReferenceRole_inst"
    then show "role_registry (register_canonical_role y ReferenceRole_inst s) r
        = Some ReferenceRole_inst"
      by (simp add: role_registry_register_canonical_role)
  qed
  then show "role_registry (register_esp_docs env st) r = Some ReferenceRole_inst"
    unfolding st' by (simp add: role_registry_add_directive)
qed

lemma optional_directives_entry:
  assumes mem: "(n, cn, m) \<in> set optional_directives"
    and imp: "import_module env m = Some pm" and cls: "map_of (mod_classes pm) cn = Some found"
  shows "\<exists>c. directives_reg (register_optional_directives env st) n = Some c \<and> passthrough_cls c"
  unfolding register_optional_directives_def
proof (rule fold_establishes [where x = "(n, cn, m)"])
  show "(n, cn, m) \<in> set optional_directives" by (rule mem)
next
  fix s :: registry
  show "\<exists>c. directives_reg
               ((\<lambda>(directive_name, directive_cls, importlib_name).
                    add_optional_directive directive_name directive_cls importlib_name env)
                  (n, cn, m) s) n = Some c
           \<and> passthrough_cls c"
    using imp cls
    by (simp add: add_optional_directive_def directives_reg_add_directive
          passthrough_interceptor_cls)
next
  fix y :: "string \<times> string \<times> string" and s :: registry
  assume P: "\<exists>c. directives_reg s n = Some c \<and> passthrough_cls c"
  obtain n' cn' m' where y: "y = (n', cn', m')" by (cases y) auto
  have "dir_upd (\<lambda>n c. passthrough_cls c) s (add_optional_directive n' cn' m' env s)"
    by (rule dir_upd_add_optional_directive) (rule passthrough_interceptor_cls)
  then have "\<exists>c. directives_reg (add_optional_directive n' cn' m' env s) n = Some c
      \<and> passthrough_cls c"
    using P by (rule passthrough_keeps)
  then show "\<exists>c. directives_reg
               ((\<lambda>(directive_name, directive_cls, importlib_name).
                    add_optional_directive directive_name directive_cls importlib_name env)
                  y s) n = Some c
           \<and> passthrough_cls c"
    by (simp add: y)
qed

lemma register_optional_available:
  assumes reg: "register env st0 = Inr st'"
  shows "import_module env ''sphinx_tabs.tabs'' \<noteq> None \<Longrightarrow>
           n \<in> {''tabs'', ''tab'', ''group-tab'', ''code-tab''} \<Longrightarrow>
           \<exists>c. directives_reg st' n = Some c \<and> passthrough_cls c"
    and "import_module env ''sphinx_click'' \<noteq> None \<Longrightarrow>
           \<exists>c. directives_reg st' ''click'' = Some c \<and> passthrough_cls c"
    and "import_module env ''sphinxarg.ext'' \<noteq> None \<Longrightarrow>
           \<exists>c. directives_reg st' ''argparse'' = Some c \<and> passthrough_cls c"
    and "from_import env ''esp_docs.esp_extensions.include_build_file'' ''IncludeBuildFile'' \<noteq> None \<Longrightarrow>
         from_import env ''esp_docs.generic_extensions.list_filter'' ''ListFilter'' \<noteq> None \<Longrightarrow>
           e \<in> {''include-build-file'', ''list''} \<Longrightarrow>
           \<exists>c. directives_reg st' e = Some c \<and> passthrough_cls c"
    and "from_import env ''esp_docs.esp_extensions.include_build_file'' ''IncludeBuildFile'' \<noteq> None \<Longrightarrow>
         from_import env ''esp_docs.generic_extensions.list_filter'' ''ListFilter'' \<noteq> None \<Longrightarrow>
           r \<in> set esp_roles \<Longrightarrow> role_registry st' r = Some ReferenceRole_inst"
    and "(o_n, o_cn, o_m) \<in> set optional_directives \<Longrightarrow> import_module env o_m = Some pm \<Longrightarrow>
         map_of (mod_classes pm) o_cn = Some found \<Longrightarrow>
           \<exists>c. directives_reg st' o_n = Some c \<and> passthrough_cls c"
proof -
  let ?PT = "\<lambda>(n::string) c. passthrough_cls c"
  from reg obtain st1 st2 st3 st4 where
    tabs: "register_sphinx_tabs env (register_autodoc env (register_sphinx env st1)) = Inr st2"
    and click: "register_sphinx_click env st2 = Inr st3"
    and arg: "register_sphinxarg env st3 = Inr st4"
    and fin: "st' = register_optional_directives env (register_esp_docs env st4)"
    by (rule register_steps)
  have PT: "\<And>n c r. later_reg env n r \<Longrightarrow> passthrough_cls (interceptor_cls c None r)"
    by (rule passthrough_interceptor_cls)
  have u23: "dir_upd ?PT st2 st3" using PT click by (rule dir_upd_register_sphinx_click)
  have u34: "dir_upd ?PT st3 st4" using PT arg by (rule dir_upd_register_sphinxarg)
  have u45: "dir_upd ?PT st4 (register_esp_docs env st4)"
    using PT by (rule dir_upd_register_esp_docs)
  have u56: "dir_upd ?PT (register_esp_docs env st4) st'"
    unfolding fin using PT by (rule dir_upd_register_optional_directives)
  have u4: "dir_upd ?PT st4 st'" using u45 u56 by (rule dir_upd_trans)
  have u3: "dir_upd ?PT st3 st'" using u34 u4 by (rule dir_upd_trans)
  have u2: "dir_upd ?PT st2 st'" using u23 u3 by (rule dir_upd_trans)
  show "import_module env ''sphinx_tabs.tabs'' \<noteq> None \<Longrightarrow>
           n \<in> {''tabs'', ''tab'', ''group-tab'', ''code-tab''} \<Longrightarrow>
           \<exists>c. directives_reg st' n = Some c \<and> passthrough_cls c"
    using sphinx_tabs_entries [OF tabs] passthrough_keeps [OF u2] by blast
  show "import_module env ''sphinx_click'' \<noteq> None \<Longrightarrow>
           \<exists>c. directives_reg st' ''click'' = Some c \<and> passthrough_cls c"
    using sphinx_click_entry [OF click] passthrough_keeps [OF u3] by blast
  show "import_module env ''sphinxarg.ext'' \<noteq> None \<Longrightarrow>
           \<exists>c. directives_reg st' ''argparse'' = Some c \<and> passthrough_cls c"
    using sphinxarg_entry [OF arg] passthrough_keeps [OF u4] by blast
  show "from_import env ''esp_docs.esp_extensions.include_build_file'' ''IncludeBuildFile'' \<noteq> None \<Longrightarrow>
         from_import env ''esp_docs.generic_extensions.list_filter'' ''ListFilter'' \<noteq> None \<Longrightarrow>
           e \<in> {''include-build-file'', ''list''} \<Longrightarrow>
           \<exists>c. directives_reg st' e = Some c \<and> passthrough_cls c"
    using esp_docs_entries(1) [where env = env and st = st4 and n = e]
      passthrough_keeps [OF u56] by blast
  show "from_import env ''esp_docs.esp_extensions.include_build_file'' ''IncludeBuildFile'' \<noteq> None \<Longrightarrow>
         from_import env ''esp_docs.generic_extensions.list_filter'' ''ListFilter'' \<noteq> None \<Longrightarrow>
           r \<in> set esp_roles \<Longrightarrow> role_registry st' r = Some ReferenceRole_inst"
    using esp_docs_entries(2) [where env = env and st = st4 and r = r]
    unfolding fin by (auto simp: role_registry_register_optional_directives)
  show "(o_n, o_cn, o_m) \<in> set optional_directives \<Longrightarrow> import_module env o_m = Some pm \<Longrightarrow>
         map_of (mod_classes pm) o_cn = Some found \<Longrightarrow>
           \<exists>c. directives_reg st' o_n = Some c \<and> passthrough_cls c"
    unfolding fin by (rule optional_directives_entry)
qed


lemma register_raises_in_base_grammar:
  assumes "import_module env ''sphinx_tabs.tabs'' = None"
    and "import_module env ''sphinx_click'' = None"
    and "import_module env ''sphinxarg.ext'' = None"
  shows "raised (register env st0) =
     raised (register_base_grammar env (directive_registry env)
       (register_role_directive
          (register_default_domain env (register_domains env (register_roles st0)))))"
  using assms
  by (simp add: raised_def register_def bind_err_def register_sphinx_tabs_def
        register_sphinx_click_def register_sphinxarg_def split: sum.splits)

text \<open>
  What the probes of the optional packages do on the inputs where they behave alike. A
  probe whose module cannot be imported returns without raising and leaves both
  registries as they were; with the three modules that are imported in a \<^verbatim>\<open>try\<close>
  block absent, \<^verbatim>\<open>register\<close> raises only if the loop over the base grammar does. A
  class that cannot be located is skipped silently by \<^verbatim>\<open>_add_optional_directive\<close> and
  by the \<^verbatim>\<open>from ... import\<close> of the \<^verbatim>\<open>esp_docs\<close> block. When \<^verbatim>\<open>register\<close> returns
  and a package is there, each of its names is registered, the directives as passthrough
  classes and the roles as instances of \<^verbatim>\<open>ReferenceRole\<close>.
\<close>

lemma optional_packages:
  "(import_module env ''sphinx_tabs.tabs'' = None \<longrightarrow> register_sphinx_tabs env st = Inr st)
   \<and> (import_module env ''sphinx_click'' = None \<longrightarrow> register_sphinx_click env st = Inr st)
   \<and> (import_module env ''sphinxarg.ext'' = None \<longrightarrow> register_sphinxarg env st = Inr st)
   \<and> (from_import env ''esp_docs.esp_extensions.include_build_file'' ''IncludeBuildFile'' = None
        \<or> from_import env ''esp_docs.generic_extensions.list_filter'' ''ListFilter'' = None \<longrightarrow>
      register_esp_docs env st = st)
   \<and> (import_module env importlib_name = None
        \<or> (\<exists>m. import_module env importlib_name = Some m
                \<and> map_of (mod_classes m) directive_cls = None) \<longrightarrow>
      add_optional_directive directive_name directive_cls importlib_name env st = st)
   \<and> (import_module env ''sphinx_tabs.tabs'' = None \<and> import_module env ''sphinx_click'' = None
        \<and> import_module env ''sphinxarg.ext'' = None \<longrightarrow>
      raised (register env st0) =
        raised (register_base_grammar env (directive_registry env)
          (register_role_directive
             (register_default_domain env (register_domains env (register_roles st0))))))
   \<and> (register env st0 = Inr st' \<longrightarrow>
        (import_module env ''sphinx_tabs.tabs'' \<noteq> None \<longrightarrow>
           (\<forall>n \<in> {''tabs'', ''tab'', ''group-tab'', ''code-tab''}.
              \<exists>c. directives_reg st' n = Some c \<and> passthrough_cls c))
      \<and> (import_module env ''sphinx_click'' \<noteq> None \<longrightarrow>
           (\<exists>c. directives_reg st' ''click'' = Some c \<and> passthrough_cls c))
      \<and> (import_module env ''sphinxarg.ext'' \<noteq> None \<longrightarrow>
           (\<exists>c. directives_reg st' ''argparse'' = Some c \<and> passthrough_cls c))
      \<and> (from_import env ''esp_docs.esp_extensions.include_build_file'' ''IncludeBuildFile'' \<noteq> None
           \<and> from_import env ''esp_docs.generic_extensions.list_filter'' ''ListFilter'' \<noteq> None \<longrightarrow>
           (\<forall>n \<in> {''include-build-file'', ''list''}.
              \<exists>c. directives_reg st' n = Some c \<and> passthrough_cls c)
           \<and> (\<forall>r \<in> set esp_roles. role_registry st' r = Some ReferenceRole_inst))
      \<and> (\<forall>(n, cn, m) \<in> set optional_directives.
           (\<exists>pm found. import_module env m = Some pm \<and> map_of (mod_classes pm) cn = Some found) \<longrightarrow>
           (\<exists>c. directives_reg st' n = Some c \<and> passthrough_cls c)))"
proof (intro conjI impI)
  assume "import_module env ''sphinx_tabs.tabs'' = None"
  then show "register_sphinx_tabs env st = Inr st" by (simp add: register_sphinx_tabs_def)
next
  assume "import_module env ''sphinx_click'' = None"
  then show "register_sphinx_click env st = Inr st" by (simp add: register_sphinx_click_def)
next
  assume "import_module env ''sphinxarg.ext'' = None"
  then show "register_sphinxarg env st = Inr st" by (simp add: register_sphinxarg_def)
next
  assume "from_import env ''esp_docs.esp_extensions.include_build_file'' ''IncludeBuildFile'' = None
        \<or> from_import env ''esp_docs.generic_extensions.list_filter'' ''ListFilter'' = None"
  then show "register_esp_docs env st = st"
    by (auto simp: register_esp_docs_def split: option.splits)
next
  assume "import_module env importlib_name = None
        \<or> (\<exists>m. import_module env importlib_name = Some m
                \<and> map_of (mod_classes m) directive_cls = None)"
  then show "add_optional_directive directive_name directive_cls importlib_name env st = st"
    by (auto simp: add_optional_directive_def)
next
  assume "import_module env ''sphinx_tabs.tabs'' = None \<and> import_module env ''sphinx_click'' = None
        \<and> import_module env ''sphinxarg.ext'' = None"
  then show "raised (register env st0) =
        raised (register_base_grammar env (directive_registry env)
          (register_role_directive
             (register_default_domain env (register_domains env (register_roles st0)))))"
    using register_raises_in_base_grammar by blast
next
  assume r: "register env st0 = Inr st'" and "import_module env ''sphinx_tabs.tabs'' \<noteq> None"
  then show "\<forall>n \<in> {''tabs'', ''tab'', ''group-tab'', ''code-tab''}.
              \<exists>c. directives_reg st' n = Some c \<and> passthrough_cls c"
    using register_optional_available(1) [OF r] by blast
next
  assume r: "register env st0 = Inr st'" and "import_module env ''sphinx_click'' \<noteq> None"
  then show "\<exists>c. directives_reg st' ''click'' = Some c \<and> passthrough_cls c"
    by (rule register_optional_available(2))
next
  assume r: "register env st0 = Inr st'" and "import_module env ''sphinxarg.ext'' \<noteq> None"
  then show "\<exists>c. directives_reg st' ''argparse'' = Some c \<and> passthrough_cls c"
    by (rule register_optional_available(3))
next
  assume r: "register env st0 = Inr st'"
    and e: "from_import env ''esp_docs.esp_extensions.include_build_file'' ''IncludeBuildFile'' \<noteq> None
           \<and> from_import env ''esp_docs.generic_extensions.list_filter'' ''ListFilter'' \<noteq> None"
  show "\<forall>n \<in> {''include-build-file'', ''list''}.
              \<exists>c. directives_reg st' n = Some c \<and> passthrough_cls c"
    using register_optional_available(4) [OF r] e by blast
  show "\<forall>r \<in> set esp_roles. role_registry st' r = Some ReferenceRole_inst"
    using register_optional_available(5) [OF r] e by blast
next
  assume r: "register env st0 = Inr st'"
  show "\<forall>(n, cn, m) \<in> set optional_directives.
           (\<exists>pm found. import_module env m = Some pm \<and> map_of (mod_classes pm) cn = Some found) \<longrightarrow>
           (\<exists>c. directives_reg st' n = Some c \<and> passthrough_cls c)"
    using register_optional_available(6) [OF r] by blast
qed

lemma example_env_full_returns: "\<exists>st'. register example_env_full empty_registry = Inr st'"
  by (simp add: register_defs example_defs)

lemma optional_packages_witness:
  "import_module example_env ''sphinx_tabs.tabs'' = None
   \<and> register_sphinx_tabs example_env empty_registry = Inr empty_registry
   \<and> import_module example_env ''sphinx_click'' = None
   \<and> register_sphinx_click example_env empty_registry = Inr empty_registry
   \<and> import_module example_env ''sphinxarg.ext'' = None
   \<and> register_sphinxarg example_env empty_registry = Inr empty_registry
   \<and> from_import example_env ''esp_docs.esp_extensions.include_build_file'' ''IncludeBuildFile'' = None
   \<and> register_esp_docs example_env empty_registry = empty_registry
   \<and> import_module example_env ''sphinxcontrib.packetdiag'' = None
   \<and> add_optional_directive ''packetdiag'' ''Packetdiag'' ''sphinxcontrib.packetdiag''
        example_env empty_registry = empty_registry
   \<and> (\<exists>m. import_module example_env ''sphinxcontrib.blockdiag'' = Some m
          \<and> map_of (mod_classes m) ''Packetdiag'' = None)
   \<and> add_optional_directive ''packetdiag'' ''Packetdiag'' ''sphinxcontrib.blockdiag''
        example_env empty_registry = empty_registry
   \<and> \<not> raised (register example_env empty_registry)
   \<and> (\<exists>st'. register example_env_full empty_registry = Inr st'
        \<and> import_module example_env_full ''sphinx_tabs.tabs'' \<noteq> None
        \<and> (\<exists>c. directives_reg st' ''group-tab'' = Some c \<and> passthrough_cls c)
        \<and> import_module example_env_full ''sphinx_click'' \<noteq> None
        \<and> (\<exists>c. directives_reg st' ''click'' = Some c \<and> passthrough_cls c)
        \<and> import_module example_env_full ''sphinxarg.ext'' \<noteq> None
        \<and> (\<exists>c. directives_reg st' ''argparse'' = Some c \<and> passthrough_cls c)
        \<and> from_import example_env_full ''esp_docs.esp_extensions.include_build_file''
             ''IncludeBuildFile'' \<noteq> None
        \<and> from_import example_env_full ''esp_docs.generic_extensions.list_filter''
             ''ListFilter'' \<noteq> None
        \<and> (\<exists>c. directives_reg st' ''list'' = Some c \<and> passthrough_cls c)
        \<and> ''idf_file'' \<in> set esp_roles
        \<and> role_registry st' ''idf_file'' = Some ReferenceRole_inst
        \<and> (''blockdiag'', ''Blockdiag'', ''sphinxcontrib.blockdiag'') \<in> set optional_directives
        \<and> (\<exists>pm found. import_module example_env_full ''sphinxcontrib.blockdiag'' = Some pm
              \<and> map_of (mod_classes pm) ''Blockdiag'' = Some found)
        \<and> (\<exists>c. directives_reg st' ''blockdiag'' = Some c \<and> passthrough_cls c))"
proof -
  have a: "import_module example_env ''sphinx_tabs.tabs'' = None"
    and b: "import_module example_env ''sphinx_click'' = None"
    and c: "import_module example_env ''sphinxarg.ext'' = None"
    and d: "from_import example_env ''esp_docs.esp_extensions.include_build_file''
              ''IncludeBuildFile'' = None"
    and e1: "import_module example_env ''sphinxcontrib.packetdiag'' = None"
    and e2: "\<exists>m. import_module example_env ''sphinxcontrib.blockdiag'' = Some m
          \<and> map_of (mod_classes m) ''Packetdiag'' = None"
    by (simp_all add: example_env_def example_modules_def from_import_def)
  note absent = optional_packages [where env = example_env and st = empty_registry
      and ?st0.0 = empty_registry and directive_name = "''packetdiag''"
      and directive_cls = "''Packetdiag''"]
  have A: "register_sphinx_tabs example_env empty_registry = Inr empty_registry"
    using a by (rule absent [THEN conjunct1, THEN mp])
  have B: "register_sphinx_click example_env empty_registry = Inr empty_registry"
    using b by (rule absent [THEN conjunct2, THEN conjunct1, THEN mp])
  have C: "register_sphinxarg example_env empty_registry = Inr empty_registry"
    using c by (rule absent [THEN conjunct2, THEN conjunct2, THEN conjunct1, THEN mp])
  have D: "register_esp_docs example_env empty_registry = empty_registry"
    by (rule absent [THEN conjunct2, THEN conjunct2, THEN conjunct2, THEN conjunct1, THEN mp])
       (rule disjI1, rule d)
  have E1: "add_optional_directive ''packetdiag'' ''Packetdiag'' ''sphinxcontrib.packetdiag''
        example_env empty_registry = empty_registry"
    by (rule absent [where importlib_name = "''sphinxcontrib.packetdiag''",
          THEN conjunct2, THEN conjunct2, THEN conjunct2, THEN conjunct2, THEN conjunct1, THEN mp])
       (rule disjI1, rule e1)
  have E2: "add_optional_directive ''packetdiag'' ''Packetdiag'' ''sphinxcontrib.blockdiag''
        example_env empty_registry = empty_registry"
    by (rule absent [where importlib_name = "''sphinxcontrib.blockdiag''",
          THEN conjunct2, THEN conjunct2, THEN conjunct2, THEN conjunct2, THEN conjunct1, THEN mp])
       (rule disjI2, rule e2)
  have "raised (register example_env empty_registry) =
        raised (register_base_grammar example_env (directive_registry example_env)
          (register_role_directive
             (register_default_domain example_env
                (register_domains example_env (register_roles empty_registry)))))"
    by (rule absent [THEN conjunct2, THEN conjunct2, THEN conjunct2, THEN conjunct2,
          THEN conjunct2, THEN conjunct1, THEN mp])
       (intro conjI a b c)
  moreover have "\<not> raised (register_base_grammar example_env (directive_registry example_env)
          (register_role_directive
             (register_default_domain example_env
                (register_domains example_env (register_roles empty_registry)))))"
    by (simp add: raised_def register_defs example_defs)
  ultimately have G: "\<not> raised (register example_env empty_registry)" by simp
  from example_env_full_returns obtain st' where
    r: "register example_env_full empty_registry = Inr st'" ..
  have t: "import_module example_env_full ''sphinx_tabs.tabs'' \<noteq> None"
    and k: "import_module example_env_full ''sphinx_click'' \<noteq> None"
    and g: "import_module example_env_full ''sphinxarg.ext'' \<noteq> None"
    and i1: "from_import example_env_full ''esp_docs.esp_extensions.include_build_file''
             ''IncludeBuildFile'' \<noteq> None"
    and i2: "from_import example_env_full ''esp_docs.generic_extensions.list_filter''
             ''ListFilter'' \<noteq> None"
    and o: "\<exists>pm found. import_module example_env_full ''sphinxcontrib.blockdiag'' = Some pm
              \<and> map_of (mod_classes pm) ''Blockdiag'' = Some found"
    by (simp_all add: example_defs from_import_def)
  have rl: "''idf_file'' \<in> set esp_roles" by (simp add: esp_roles_def)
  have om: "(''blockdiag'', ''Blockdiag'', ''sphinxcontrib.blockdiag'') \<in> set optional_directives"
    by (simp add: optional_directives_def)
  note present = optional_packages [where env = example_env_full and ?st0.0 = empty_registry
      and st' = st', THEN conjunct2, THEN conjunct2, THEN conjunct2, THEN conjunct2,
      THEN conjunct2, THEN conjunct2, THEN mp, OF r]
  have "\<forall>n \<in> {''tabs'', ''tab'', ''group-tab'', ''code-tab''}.
              \<exists>c. directives_reg st' n = Some c \<and> passthrough_cls c"
    using t by (rule present [THEN conjunct1, THEN mp])
  then have T: "\<exists>c. directives_reg st' ''group-tab'' = Some c \<and> passthrough_cls c"
    by simp
  have K: "\<exists>c. directives_reg st' ''click'' = Some c \<and> passthrough_cls c"
    using k by (rule present [THEN conjunct2, THEN conjunct1, THEN mp])
  have Ga: "\<exists>c. directives_reg st' ''argparse'' = Some c \<and> passthrough_cls c"
    using g by (rule present [THEN conjunct2, THEN conjunct2, THEN conjunct1, THEN mp])
  have esp: "(\<forall>n \<in> {''include-build-file'', ''list''}.
              \<exists>c. directives_reg st' n = Some c \<and> passthrough_cls c)
           \<and> (\<forall>r \<in> set esp_roles. role_registry st' r = Some ReferenceRole_inst)"
    by (rule present [THEN conjunct2, THEN conjunct2, THEN conjunct2, THEN conjunct1, THEN mp])
       (intro conjI i1 i2)
  from esp have L: "\<exists>c. directives_reg st' ''list'' = Some c \<and> passthrough_cls c"
    by simp
  from esp have "\<forall>r \<in> set esp_roles. role_registry st' r = Some ReferenceRole_inst" ..
  then have R: "role_registry st' ''idf_file'' = Some ReferenceRole_inst"
    using rl by (rule bspec)
  have "\<forall>(n, cn, m) \<in> set optional_directives.
           (\<exists>pm found. import_module example_env_full m = Some pm
               \<and> map_of (mod_classes pm) cn = Some found) \<longrightarrow>
           (\<exists>c. directives_reg st' n = Some c \<and> passthrough_cls c)"
    by (rule present [THEN conjunct2, THEN conjunct2, THEN conjunct2, THEN conjunct2])
  then have "(\<exists>pm found. import_module example_env_full ''sphinxcontrib.blockdiag'' = Some pm
               \<and> map_of (mod_classes pm) ''Blockdiag'' = Some found) \<longrightarrow>
           (\<exists>c. directives_reg st' ''blockdiag'' = Some c \<and> passthrough_cls c)"
    using om by (auto dest: bspec)
  then have O: "\<exists>c. directives_reg st' ''blockdiag'' = Some c \<and> passthrough_cls c"
    using o by (rule mp)
  have full: "\<exists>st'. register example_env_full empty_registry = Inr st'
        \<and> import_module example_env_full ''sphinx_tabs.tabs'' \<noteq> None
        \<and> (\<exists>c. directives_reg st' ''group-tab'' = Some c \<and> passthrough_cls c)
        \<and> import_module example_env_full ''sphinx_click'' \<noteq> None
        \<and> (\<exists>c. directives_reg st' ''click'' = Some c \<and> passthrough_cls c)
        \<and> import_module example_env_full ''sphinxarg.ext'' \<noteq> None
        \<and> (\<exists>c. directives_reg st' ''argparse'' = Some c \<and> passthrough_cls c)
        \<and> from_import example_env_full ''esp_docs.esp_extensions.include_build_file''
             ''IncludeBuildFile'' \<noteq> None
        \<and> from_import example_env_full ''esp_docs.generic_extensions.list_filter''
             ''ListFilter'' \<noteq> None
        \<and> (\<exists>c. directives_reg st' ''list'' = Some c \<and> passthrough_cls c)
        \<and> ''idf_file'' \<in> set esp_roles
        \<and> role_registry st' ''idf_file'' = Some ReferenceRole_inst
        \<and> (''blockdiag'', ''Blockdiag'', ''sphinxcontrib.blockdiag'') \<in> set optional_directives
        \<and> (\<exists>pm found. import_module example_env_full ''sphinxcontrib.blockdiag'' = Some pm
              \<and> map_of (mod_classes pm) ''Blockdiag'' = Some found)
        \<and> (\<exists>c. directives_reg st' ''blockdiag'' = Some c \<and> passthrough_cls c)"
    by (intro exI [of _ st'] conjI) (rule r t T k K g Ga i1 i2 L rl R om o O)+
  show ?thesis
    by (intro conjI) (rule a A b B c C d D e1 E1 e2 E2 G full)+
qed

text \<open>
  C6. A module of an optional package that cannot be imported, or a class that cannot be
  located in it, is to be skipped silently. The blocks of lines 187 to 209 do so only
  for the module: they read the classes as attributes after the import. On the example
  host whose \<^verbatim>\<open>sphinx_tabs.tabs\<close> can be imported but has no \<^verbatim>\<open>GroupTabDirective\<close>, the
  block of \<^verbatim>\<open>sphinx_tabs\<close> raises \<^verbatim>\<open>AttributeError\<close>, and so does \<^verbatim>\<open>register\<close>; on the
  same host and for the same module and class, \<^verbatim>\<open>_add_optional_directive\<close> returns and
  registers nothing.
\<close>

theorem sphinx_tabs_missing_class_raises:
  "import_module example_env_partial_tabs ''sphinx_tabs.tabs'' =
     Some (Py_module
            [(''TabsDirective'', host_cls ''TabsDirective'' 0 0 True []),
             (''TabDirective'', host_cls ''TabDirective'' 0 0 True [])] [])
   \<and> register_sphinx_tabs example_env_partial_tabs empty_registry
       = Inl (AttributeError ''GroupTabDirective'')
   \<and> register example_env_partial_tabs empty_registry = Inl (AttributeError ''GroupTabDirective'')
   \<and> add_optional_directive ''group-tab'' ''GroupTabDirective'' ''sphinx_tabs.tabs''
        example_env_partial_tabs empty_registry = empty_registry"
proof (intro conjI)
  show "import_module example_env_partial_tabs ''sphinx_tabs.tabs'' =
     Some (Py_module
            [(''TabsDirective'', host_cls ''TabsDirective'' 0 0 True []),
             (''TabDirective'', host_cls ''TabDirective'' 0 0 True [])] [])"
    by (simp add: example_defs)
  show "register_sphinx_tabs example_env_partial_tabs empty_registry
       = Inl (AttributeError ''GroupTabDirective'')"
    by (simp add: register_defs example_defs)
  show "register example_env_partial_tabs empty_registry
       = Inl (AttributeError ''GroupTabDirective'')"
    by (simp add: register_defs example_defs)
  show "add_optional_directive ''group-tab'' ''GroupTabDirective'' ''sphinx_tabs.tabs''
        example_env_partial_tabs empty_registry = empty_registry"
    by (simp add: register_defs example_defs)
qed

end
